theory Spec2Isabelle
  imports Complex_Main "HOL-Library.Word" "HOL-Library.Log_Nat"
begin

section \<open>Numbers and visemes\<close>

text \<open>
  JavaScript numbers are binary64 floating-point numbers.  Each is a rational number,
  and the model computes with rationals.  In the formant classifier, where a rounding
  can decide which bins a band reads and which of two close scores wins, every division
  and every sum of two means is rounded as binary64 rounds it, by \<open>fl64\<close>; sums of byte
  magnitudes are whole numbers far below \<open>2^53\<close> and exact.  The other components
  (the earlier classifier, the smoother, the blink machine, the retargeter) compute with
  exact rationals.  A frequency frame is a \<open>Uint8Array\<close>, a list of 8-bit words.
\<close>

text \<open>
  Rounding to the nearest binary64 number, ties to the even significand.  The number is
  taken as a fraction \<open>p / q\<close> in lowest terms.  \<open>exponent\<close> is the \<open>e\<close> with
  \<open>2^e \<le> p / q < 2^(e + 1)\<close>, found from the bit lengths of \<open>p\<close> and \<open>q\<close>.  The
  fraction is divided by \<open>2^(e - 52)\<close>, which brings it into \<open>[2^52, 2^53)\<close>, rounded
  there to the nearest whole number (\<open>round_even\<close>, on a tie to the even one), and
  multiplied back.  \<open>scaled p q e\<close> is the fraction \<open>(p / q) / 2^e\<close>, as a numerator and
  a positive denominator.  The exponent range of binary64 (overflow, subnormal numbers)
  is not modelled; the classifier's numbers are far inside it.
\<close>

definition round_even :: "int \<Rightarrow> int \<Rightarrow> int" where
  "round_even n d =
     (let k = n div d; r = 2 * (n mod d)
      in if r < d then k else if d < r then k + 1 else if even k then k else k + 1)"

definition scaled :: "int \<Rightarrow> int \<Rightarrow> int \<Rightarrow> int \<times> int" where
  "scaled p q e = (if 0 \<le> e then (p, q * 2 ^ nat e) else (p * 2 ^ nat (- e), q))"

definition exponent :: "int \<Rightarrow> int \<Rightarrow> int" where
  "exponent p q =
     (let g = bitlen p - bitlen q;
          (n, d) = scaled p q g
      in if d \<le> n then g else g - 1)"

definition fl64 :: "rat \<Rightarrow> rat" where
  "fl64 x =
     (let (p, q) = quotient_of x
      in if p = 0 then 0
         else let e = exponent \<bar>p\<bar> q - 52;
                  (n, d) = scaled \<bar>p\<bar> q e;
                  (n', d') = scaled (round_even n d) 1 (- e)
              in of_int (if p < 0 then - n' else n') / of_int d')"

datatype VisemeType = aa | ee | ih | oh | ou | neutral

record VisemeEstimate =
  viseme :: VisemeType
  intensity :: rat

type_synonym frame = "8 word list"

section \<open>Formant classifier (\<open>frequencyToViseme\<close>, formant version)\<close>

record FormantRange =
  f1 :: "rat \<times> rat"
  f2 :: "rat \<times> rat"

fun FORMANT_RANGES :: "VisemeType \<Rightarrow> FormantRange option" where
  "FORMANT_RANGES aa = Some \<lparr>f1 = (650, 900), f2 = (1100, 1400)\<rparr>"
| "FORMANT_RANGES ee = Some \<lparr>f1 = (500, 700), f2 = (1700, 2200)\<rparr>"
| "FORMANT_RANGES ih = Some \<lparr>f1 = (200, 400), f2 = (1900, 2500)\<rparr>"
| "FORMANT_RANGES oh = Some \<lparr>f1 = (400, 600), f2 = (800, 1300)\<rparr>"
| "FORMANT_RANGES ou = Some \<lparr>f1 = (300, 450), f2 = (700, 1100)\<rparr>"
| "FORMANT_RANGES neutral = None"

text \<open>
  The loop \<open>for (let i = startBin; i <= endBin && i < binCount; i++)\<close> of
  \<open>getAmplitudeInBand\<close>, with its two accumulators (the source's \<open>sum\<close> is \<open>bandSum\<close>
  here).  The band limits passed by \<open>frequencyToViseme\<close> are the non-negative
  constants of \<open>FORMANT_RANGES\<close>, so the index never is negative.
\<close>

function band_loop :: "frame \<Rightarrow> int \<Rightarrow> int \<Rightarrow> rat \<Rightarrow> nat \<Rightarrow> rat \<times> nat" where
  "band_loop frequencyData endBin i bandSum count =
     (if i \<le> endBin \<and> i < int (length frequencyData)
      then band_loop frequencyData endBin (i + 1)
             (bandSum + of_nat (unat (frequencyData ! nat i))) (count + 1)
      else (bandSum, count))"
  by pat_completeness auto
termination
  by (relation "measure (\<lambda>(fd, endBin, i, s, c). nat (endBin + 1 - i))") auto

declare band_loop.simps [simp del]

definition getAmplitudeInBand :: "frame \<Rightarrow> rat \<Rightarrow> rat \<Rightarrow> rat \<Rightarrow> rat" where
  "getAmplitudeInBand frequencyData startHz endHz sampleRate =
     (let binCount = length frequencyData;
          binWidth = fl64 (fl64 (sampleRate / 2) / of_nat binCount);
          startBin = \<lfloor>fl64 (startHz / binWidth)\<rfloor>;
          endBin = \<lceil>fl64 (endHz / binWidth)\<rceil>;
          (bandSum, count) = band_loop frequencyData endBin startBin 0 0
      in if count > 0 then fl64 (bandSum / of_nat count) else 0)"

text \<open>The five visemes both loops of \<open>frequencyToViseme\<close> run over, in the source's order.\<close>

definition visemes5 :: "VisemeType list" where
  "visemes5 = [aa, ee, ih, oh, ou]"

text \<open>First loop: fill the \<open>scores\<close> record, all entries of which start at 0.\<close>

definition score_step :: "frame \<Rightarrow> rat \<Rightarrow> VisemeType \<Rightarrow> (VisemeType \<Rightarrow> rat) \<Rightarrow> (VisemeType \<Rightarrow> rat)" where
  "score_step frequencyData sampleRate v scores =
     (case FORMANT_RANGES v of
        None \<Rightarrow> scores
      | Some formants \<Rightarrow>
          (let f1Amplitude = getAmplitudeInBand frequencyData (fst (f1 formants)) (snd (f1 formants)) sampleRate;
               f2Amplitude = getAmplitudeInBand frequencyData (fst (f2 formants)) (snd (f2 formants)) sampleRate
           in scores(v := fl64 (f1Amplitude + f2Amplitude))))"

definition compute_scores :: "frame \<Rightarrow> rat \<Rightarrow> VisemeType \<Rightarrow> rat" where
  "compute_scores frequencyData sampleRate =
     fold (score_step frequencyData sampleRate) visemes5 (\<lambda>_. 0)"

text \<open>
  Second loop: the running maximum, replaced only by a strictly larger score.  The scores
  compared are the rounded sums the first loop stored.
\<close>

definition max_step :: "(VisemeType \<Rightarrow> rat) \<Rightarrow> VisemeType \<Rightarrow> rat \<times> VisemeType \<Rightarrow> rat \<times> VisemeType" where
  "max_step scores v acc =
     (if scores v > fst acc then (scores v, v) else acc)"

definition find_max :: "(VisemeType \<Rightarrow> rat) \<Rightarrow> rat \<times> VisemeType" where
  "find_max scores = fold (max_step scores) visemes5 (0, neutral)"

definition totalAmplitude :: "frame \<Rightarrow> rat" where
  "totalAmplitude frequencyData = fold (\<lambda>b acc. acc + of_nat (unat b)) frequencyData 0"

definition MIN_SCORE_THRESHOLD :: rat where
  "MIN_SCORE_THRESHOLD = 20"

text \<open>\<open>frequencyToViseme\<close>; \<open>None\<close> is the \<open>undefined\<close> frame.\<close>

definition frequencyToViseme :: "frame option \<Rightarrow> VisemeEstimate" where
  "frequencyToViseme fd =
     (case fd of
        None \<Rightarrow> \<lparr>viseme = neutral, intensity = 0\<rparr>
      | Some frequencyData \<Rightarrow>
          if length frequencyData = 0 then \<lparr>viseme = neutral, intensity = 0\<rparr>
          else
            let sampleRate = 44100;
                avgAmplitude = fl64 (totalAmplitude frequencyData / of_nat (length frequencyData))
            in if avgAmplitude < 10 then \<lparr>viseme = neutral, intensity = 0\<rparr>
               else
                 let scores = compute_scores frequencyData sampleRate;
                     (maxScore, detectedViseme) = find_max scores;
                     detectedViseme = (if maxScore < MIN_SCORE_THRESHOLD then neutral else detectedViseme);
                     intensity = min 1 (fl64 (maxScore / 150))
                 in \<lparr>viseme = detectedViseme, intensity = intensity\<rparr>)"

section \<open>Feature classifier (\<open>frequencyToViseme\<close> of \<open>utils/frequencyToViseme.ts\<close>)\<close>

text \<open>
  The file \<open>utils/frequencyToViseme.ts\<close> holds an earlier classifier of the same name,
  which decides from three band means, the volume and the spectral centroid.  It is
  \<open>frequencyToViseme_features\<close> here.
\<close>

record FrequencyFeatures =
  lowFreq :: rat
  midFreq :: rat
  highFreq :: rat
  volume :: rat
  centroid :: rat

text \<open>The accumulators of the loop of \<open>extractFeatures\<close>.\<close>

record feature_acc =
  lowSum :: rat
  midSum :: rat
  highSum :: rat
  lowCount :: nat
  midCount :: nat
  highCount :: nat
  totalMagnitude :: rat
  weightedSum :: rat

definition feature_step :: "rat \<Rightarrow> nat \<times> 8 word \<Rightarrow> feature_acc \<Rightarrow> feature_acc" where
  "feature_step binWidth ib a =
     (let frequency = of_nat (fst ib) * binWidth;
          magnitude = of_nat (unat (snd ib));
          a = a\<lparr>totalMagnitude := totalMagnitude a + magnitude,
                 weightedSum := weightedSum a + frequency * magnitude\<rparr>
      in if frequency < 500 then a\<lparr>lowSum := lowSum a + magnitude, lowCount := lowCount a + 1\<rparr>
         else if frequency < 2000 then a\<lparr>midSum := midSum a + magnitude, midCount := midCount a + 1\<rparr>
         else if frequency < 8000 then a\<lparr>highSum := highSum a + magnitude, highCount := highCount a + 1\<rparr>
         else a)"

definition extractFeatures :: "frame \<Rightarrow> rat \<Rightarrow> FrequencyFeatures" where
  "extractFeatures frequencyData sampleRate =
     (let binCount = length frequencyData;
          binWidth = (sampleRate / 2) / of_nat binCount;
          a = fold (feature_step binWidth) (zip [0..<binCount] frequencyData)
                \<lparr>lowSum = 0, midSum = 0, highSum = 0, lowCount = 0, midCount = 0, highCount = 0,
                 totalMagnitude = 0, weightedSum = 0\<rparr>
      in \<lparr>lowFreq = (if lowCount a > 0 then lowSum a / of_nat (lowCount a) else 0),
          midFreq = (if midCount a > 0 then midSum a / of_nat (midCount a) else 0),
          highFreq = (if highCount a > 0 then highSum a / of_nat (highCount a) else 0),
          volume = totalMagnitude a / of_nat binCount,
          centroid = (if totalMagnitude a > 0 then weightedSum a / totalMagnitude a else 0)\<rparr>)"

definition frequencyToViseme_features :: "frame option \<Rightarrow> VisemeEstimate" where
  "frequencyToViseme_features fd =
     (case fd of
        None \<Rightarrow> \<lparr>viseme = neutral, intensity = 0\<rparr>
      | Some frequencyData \<Rightarrow>
          if length frequencyData = 0 then \<lparr>viseme = neutral, intensity = 0\<rparr>
          else
            let features = extractFeatures frequencyData 44100
            in if volume features < 10 then \<lparr>viseme = neutral, intensity = 0\<rparr>
               else
                 let intensity = min 1 (volume features / 100)
                 in if lowFreq features > 30 \<and> midFreq features > 25 \<and> centroid features < 2000
                    then \<lparr>viseme = aa, intensity = intensity\<rparr>
                    else if midFreq features > 30 \<and> highFreq features > 20 \<and> centroid features > 2500
                    then \<lparr>viseme = ee, intensity = intensity\<rparr>
                    else if midFreq features > 25 \<and> centroid features > 1500 \<and> centroid features < 2500
                    then \<lparr>viseme = ih, intensity = intensity\<rparr>
                    else if lowFreq features > 35 \<and> midFreq features > 20 \<and> highFreq features < 20
                    then \<lparr>viseme = oh, intensity = intensity\<rparr>
                    else if lowFreq features > 40 \<and> centroid features < 1500
                    then \<lparr>viseme = ou, intensity = intensity\<rparr>
                    else \<lparr>viseme = neutral, intensity = intensity * (1 / 2)\<rparr>)"

section \<open>Closed forms for the classifier\<close>

text \<open>The mean of a list of magnitudes as binary64 computes it: the exact sum, divided.\<close>

definition mean_magnitude :: "frame \<Rightarrow> rat" where
  "mean_magnitude xs =
     (if xs = [] then 0 else fl64 (sum_list (map (\<lambda>b. of_nat (unat b)) xs) / of_nat (length xs)))"

text \<open>
  The bins the source reads for a band: from \<open>floor (startHz / binWidth)\<close> up to and
  including \<open>ceil (endHz / binWidth)\<close>, cut off at the end of the frame, the bin width
  and the two quotients being the binary64 ones.
\<close>

definition band_bins :: "frame \<Rightarrow> rat \<Rightarrow> rat \<Rightarrow> frame" where
  "band_bins frequencyData startHz endHz =
     (let binWidth = fl64 (22050 / of_nat (length frequencyData));
          startBin = \<lfloor>fl64 (startHz / binWidth)\<rfloor>;
          endBin = \<lceil>fl64 (endHz / binWidth)\<rceil>
      in take (nat (endBin + 1 - startBin)) (drop (nat startBin) frequencyData))"

definition formant_score :: "frame \<Rightarrow> VisemeType \<Rightarrow> rat" where
  "formant_score frequencyData v =
     (case FORMANT_RANGES v of
        None \<Rightarrow> 0
      | Some r \<Rightarrow> fl64 (mean_magnitude (band_bins frequencyData (fst (f1 r)) (snd (f1 r)))
                      + mean_magnitude (band_bins frequencyData (fst (f2 r)) (snd (f2 r)))))"

text \<open>
  The claim C1 in its own words: a band holds the bins from \<open>round (minHz / binWidth)\<close>
  up to \<open>round (maxHz / binWidth)\<close>, that last bin excluded when the band is read as
  \<open>[minHz, maxHz)\<close> and included when it is read as inclusive (\<open>inclusive\<close>).  The
  arithmetic is binary64 here too, and \<open>round\<close> rounds a half upwards, as \<open>Math.round\<close>
  does.
\<close>

definition claimed_bin :: "nat \<Rightarrow> rat \<Rightarrow> int" where
  "claimed_bin binCount hz = round (fl64 (hz / fl64 (22050 / of_nat binCount)))"

definition claimed_band_bins :: "bool \<Rightarrow> frame \<Rightarrow> rat \<Rightarrow> rat \<Rightarrow> frame" where
  "claimed_band_bins inclusive frequencyData minHz maxHz =
     (let lo = claimed_bin (length frequencyData) minHz;
          hi = claimed_bin (length frequencyData) maxHz
      in take (nat (hi - lo + (if inclusive then 1 else 0))) (drop (nat lo) frequencyData))"

definition claimed_score :: "bool \<Rightarrow> frame \<Rightarrow> VisemeType \<Rightarrow> rat" where
  "claimed_score inclusive frequencyData v =
     (case FORMANT_RANGES v of
        None \<Rightarrow> 0
      | Some r \<Rightarrow> fl64 (mean_magnitude (claimed_band_bins inclusive frequencyData (fst (f1 r)) (snd (f1 r)))
                      + mean_magnitude (claimed_band_bins inclusive frequencyData (fst (f2 r)) (snd (f2 r)))))"

definition claimed_classification :: "bool \<Rightarrow> frame option \<Rightarrow> VisemeEstimate \<Rightarrow> bool" where
  "claimed_classification inclusive fd r =
     (case fd of
        None \<Rightarrow> r = \<lparr>viseme = neutral, intensity = 0\<rparr>
      | Some frequencyData \<Rightarrow>
          if frequencyData = [] \<or> mean_magnitude frequencyData < 10
          then r = \<lparr>viseme = neutral, intensity = 0\<rparr>
          else
            let maxScore = Max (claimed_score inclusive frequencyData ` set visemes5)
            in intensity r = min 1 (fl64 (maxScore / 150))
               \<and> (if maxScore < 20 then viseme r = neutral
                  else viseme r \<in> set visemes5 \<and> claimed_score inclusive frequencyData (viseme r) = maxScore))"

section \<open>Temporal smoother (\<open>VisemeSmoother\<close>, weighted version)\<close>

text \<open>
  A history entry is an estimate with the millisecond timestamp \<open>Date.now()\<close> at which
  it was pushed; the clock reading is a parameter \<open>now\<close> of \<open>add\<close>.
\<close>

record HistoryEntry = VisemeEstimate +
  timestamp :: int

record VisemeSmoother =
  history :: "HistoryEntry list"
  lastViseme :: VisemeType
  lastVisemeTime :: int

definition historySize :: nat where
  "historySize = 3"

definition minDuration :: int where
  "minDuration = 30"

definition new_VisemeSmoother :: VisemeSmoother where
  "new_VisemeSmoother = \<lparr>history = [], lastViseme = neutral, lastVisemeTime = 0\<rparr>"

text \<open>
  The \<open>scores\<close> map of \<open>add\<close> is a JavaScript \<open>Map\<close>, iterated in insertion order: an
  association list in which \<open>set\<close> overwrites an existing key in place and appends a new
  one, and \<open>scores.get(v) || 0\<close> reads a missing key as 0.
\<close>

fun scores_set :: "VisemeType \<Rightarrow> rat \<Rightarrow> (VisemeType \<times> rat) list \<Rightarrow> (VisemeType \<times> rat) list" where
  "scores_set k x [] = [(k, x)]"
| "scores_set k x (p # ps) = (if fst p = k then (k, x) # ps else p # scores_set k x ps)"

definition scores_get :: "(VisemeType \<times> rat) list \<Rightarrow> VisemeType \<Rightarrow> rat" where
  "scores_get scores k = (case map_of scores k of None \<Rightarrow> 0 | Some x \<Rightarrow> x)"

text \<open>The scoring loop over the history, entry \<open>i\<close> weighted \<open>(i + 1) / history.length\<close>.\<close>

definition weigh_step ::
  "nat \<Rightarrow> nat \<times> HistoryEntry \<Rightarrow> (VisemeType \<times> rat) list \<times> rat \<Rightarrow> (VisemeType \<times> rat) list \<times> rat" where
  "weigh_step n ie acc =
     (let entry = snd ie;
          weight = of_nat (fst ie + 1) / of_nat n;
          currentScore = scores_get (fst acc) (viseme entry) + weight
      in (scores_set (viseme entry) currentScore (fst acc), snd acc + intensity entry * weight))"

definition weigh :: "HistoryEntry list \<Rightarrow> (VisemeType \<times> rat) list \<times> rat" where
  "weigh h = fold (weigh_step (length h)) (zip [0..<length h] h) ([], 0)"

text \<open>The loop that picks the highest-scoring viseme, replaced only by a strictly larger score.\<close>

definition best_step :: "VisemeType \<times> rat \<Rightarrow> rat \<times> VisemeType \<Rightarrow> rat \<times> VisemeType" where
  "best_step p acc = (if snd p > fst acc then (snd p, fst p) else acc)"

definition best :: "(VisemeType \<times> rat) list \<Rightarrow> rat \<times> VisemeType" where
  "best scores = fold best_step scores (0, neutral)"

definition add :: "VisemeSmoother \<Rightarrow> VisemeType \<Rightarrow> rat \<Rightarrow> int \<Rightarrow> VisemeEstimate \<times> VisemeSmoother" where
  "add s v x now =
     (let h1 = history s @ [\<lparr>viseme = v, intensity = x, timestamp = now\<rparr>];
          h2 = (if length h1 > historySize then tl h1 else h1);
          s1 = s\<lparr>history := h2\<rparr>
      in if length h2 < 2 then (\<lparr>viseme = v, intensity = x\<rparr>, s1)
         else
           let (scores, totalIntensity) = weigh h2;
               (maxScore, bestViseme) = best scores;
               shouldChange =
                 (x > 1 / 2
                  \<or> (bestViseme \<noteq> lastViseme s1 \<and> now - lastVisemeTime s1 > minDuration)
                  \<or> (length h2 \<ge> 2
                      \<and> viseme (h2 ! (length h2 - 1)) = viseme (h2 ! (length h2 - 2))));
               s2 = (if shouldChange then s1\<lparr>lastViseme := bestViseme, lastVisemeTime := now\<rparr> else s1);
               avgIntensity = totalIntensity / of_nat (length h2)
           in (\<lparr>viseme = lastViseme s2, intensity = avgIntensity\<rparr>, s2))"

text \<open>The recency-weighted candidate: the viseme the two loops of \<open>add\<close> pick from a history.\<close>

definition candidate :: "HistoryEntry list \<Rightarrow> VisemeType" where
  "candidate h = snd (best (fst (weigh h)))"

text \<open>
  The weighted average of values \<open>xs\<close> under weights \<open>ws\<close>, and the recency weights
  \<open>(i + 1) / k\<close> for the \<open>i\<close>-th oldest of \<open>n\<close> entries, as the claim C4 words them.
\<close>

definition weighted_average :: "rat list \<Rightarrow> rat list \<Rightarrow> rat" where
  "weighted_average ws xs = sum_list (map2 (*) ws xs) / sum_list ws"

definition recency_weights :: "nat \<Rightarrow> nat \<Rightarrow> rat list" where
  "recency_weights k n = map (\<lambda>i. of_nat (i + 1) / of_nat k) [0..<n]"

section \<open>Blink state machine (\<open>BlinkController\<close>)\<close>

text \<open>
  The three states \<open>'idle' | 'closing' | 'opening'\<close> are \<open>Idle\<close>, \<open>Closing\<close> and
  \<open>Opening\<close>.  \<open>update\<close> reads the clock (\<open>Date.now()\<close>, whole milliseconds) and draws up
  to two random numbers; all three are parameters here: \<open>now\<close>, and \<open>rnd1\<close>, \<open>rnd2\<close> for
  the first and second \<open>Math.random()\<close>.
\<close>

datatype BlinkState = Idle | Closing | Opening

record BlinkController =
  state :: BlinkState
  blinkValue :: rat
  lastBlinkTime :: int
  blinkStartTime :: int

definition minCooldown :: int where "minCooldown = 2000"
definition maxCooldown :: int where "maxCooldown = 4000"
definition closeDuration :: int where "closeDuration = 50"
definition openDuration :: int where "openDuration = 100"
definition pauseThreshold :: rat where "pauseThreshold = 15 / 100"
definition blinkChance :: rat where "blinkChance = 3 / 10"


definition easeInQuad :: "rat \<Rightarrow> rat" where
  "easeInQuad t = t * t"

definition easeOutQuad :: "rat \<Rightarrow> rat" where
  "easeOutQuad t = t * (2 - t)"

definition startBlink :: "BlinkController \<Rightarrow> int \<Rightarrow> BlinkController" where
  "startBlink s now = s\<lparr>state := Closing, blinkStartTime := now, lastBlinkTime := now\<rparr>"

definition updateBlinkAnimation :: "BlinkController \<Rightarrow> int \<Rightarrow> BlinkController" where
  "updateBlinkAnimation s now =
     (let elapsed = now - blinkStartTime s
      in if state s = Closing then
           let progress = min 1 (of_int elapsed / of_int closeDuration);
               s = s\<lparr>blinkValue := easeInQuad progress\<rparr>
           in if progress \<ge> 1 then s\<lparr>state := Opening, blinkStartTime := now\<rparr> else s
         else if state s = Opening then
           let progress = min 1 (of_int elapsed / of_int openDuration);
               s = s\<lparr>blinkValue := 1 - easeOutQuad progress\<rparr>
           in if progress \<ge> 1 then s\<lparr>state := Idle, blinkValue := 0\<rparr> else s
         else s)"

definition update :: "BlinkController \<Rightarrow> rat \<Rightarrow> int \<Rightarrow> rat \<Rightarrow> rat \<Rightarrow> rat \<times> BlinkController" where
  "update s audioIntensity now rnd1 rnd2 =
     (let timeSinceLastBlink = now - lastBlinkTime s
      in if state s \<noteq> Idle then
           let s = updateBlinkAnimation s now in (blinkValue s, s)
         else
           let cooldownPassed = timeSinceLastBlink > minCooldown;
               isInPause = audioIntensity < pauseThreshold;
               shouldBlink = (cooldownPassed \<and> isInPause \<and> rnd1 < blinkChance);
               forceBlink = (timeSinceLastBlink > maxCooldown \<and> rnd2 < 1 / 2);
               s = (if shouldBlink \<or> forceBlink then startBlink s now else s)
           in (blinkValue s, s))"

text \<open>
  One frame tick as \<open>update\<close> sees it, and the run of a blink: the clock readings and
  states after successive \<open>update\<close> calls, up to and including the call that returns the
  controller to \<open>Idle\<close>.
\<close>

record tick =
  audio :: rat
  clock :: int
  draw1 :: rat
  draw2 :: rat

fun blink_run :: "BlinkController \<Rightarrow> tick list \<Rightarrow> (int \<times> BlinkController) list" where
  "blink_run s [] = []"
| "blink_run s (t # ts) =
     (let s' = snd (update s (audio t) (clock t) (draw1 t) (draw2 t))
      in (clock t, s') # (if state s' = Idle then [] else blink_run s' ts))"




section \<open>Scene: animation transitions and expression output\<close>

text \<open>
  The scene component drives \<open>THREE.AnimationAction\<close> objects and the VRM expression
  manager, both of external libraries.  The model records what the component does to
  them: the method calls and property writes it issues, in order, the console output, and
  the timers it sets.  What the component reads from an action (\<open>isRunning()\<close>,
  \<open>paused\<close>) is given by a view of each action, taken when \<open>playAnimation\<close> is entered;
  \<open>None\<close> is a ref that is still \<open>null\<close>, an action never registered.
\<close>

datatype AnimationType = idle | greeting | waveHipHop | northernSoulSpin

datatype action_call =
    FadeOut rat
  | FadeIn rat
  | Play
  | Stop
  | Reset
  | SetEnabled bool
  | SetPaused bool
  | SetEffectiveTimeScale rat
  | SetEffectiveWeight rat

datatype effect =
    Log string
  | Warn string
  | Call AnimationType action_call

text \<open>An effect done at once, or a \<open>setTimeout\<close> callback with its delay in milliseconds.\<close>

datatype scheduled = Now effect | SetTimeout rat "effect list"

record action_view =
  isRunning :: bool
  paused :: bool

type_synonym action_refs = "AnimationType \<Rightarrow> action_view option"

text \<open>The keys of \<open>animationActions\<close>, in the order \<open>Object.entries\<close> yields them.\<close>

definition animation_keys :: "AnimationType list" where
  "animation_keys = [idle, greeting, waveHipHop, northernSoulSpin]"

definition log_state :: "action_refs \<Rightarrow> AnimationType \<Rightarrow> scheduled list" where
  "log_state refs key = (case refs key of None \<Rightarrow> [] | Some action \<Rightarrow> [Now (Log ''state'')])"

text \<open>The body of the \<open>forEach\<close> that fades out the one-shot animations on the way to idle.\<close>

definition fade_out_one_shot :: "action_refs \<Rightarrow> rat \<Rightarrow> AnimationType \<Rightarrow> scheduled list" where
  "fade_out_one_shot refs crossfadeDuration key =
     (case refs key of
        None \<Rightarrow> []
      | Some action \<Rightarrow>
          if key \<noteq> idle then
            (let isActive = (isRunning action \<or> paused action)
             in if isActive then
                  [Now (Log ''Fading out and stopping''),
                   Now (Call key (FadeOut crossfadeDuration)),
                   SetTimeout (crossfadeDuration * 1000)
                     [Call key (SetEnabled False),
                      Call key (SetPaused False),
                      Call key Stop,
                      Call key Reset,
                      Log ''Cleanup complete'']]
                else [])
          else [])"

definition playAnimation :: "action_refs \<Rightarrow> AnimationType \<Rightarrow> rat \<Rightarrow> scheduled list" where
  "playAnimation refs type crossfadeDuration =
     (case refs type of
        None \<Rightarrow> []
      | Some newAction \<Rightarrow>
          [Now (Log ''Starting transition'')]
          @ concat (map (log_state refs) animation_keys)
          @ (if type = idle then
               concat (map (fade_out_one_shot refs crossfadeDuration) animation_keys)
               @ (if \<not> isRunning newAction
                  then [Now (Log ''Restarting idle''), Now (Call type Play)]
                  else [Now (Log ''Fading in idle'')])
             else
               (case refs idle of
                  None \<Rightarrow> []
                | Some idleAction \<Rightarrow>
                    if isRunning idleAction
                    then [Now (Log ''Fading out: idle''), Now (Call idle (FadeOut crossfadeDuration))]
                    else [])
               @ [Now (Log ''Resetting to frame 0''), Now (Call type Reset)])
          @ [Now (Call type (SetEnabled True)),
             Now (Call type (SetEffectiveTimeScale 1)),
             Now (Call type (SetEffectiveWeight 1)),
             Now (Log ''Fading in''),
             Now (Call type (FadeIn crossfadeDuration))]
          @ (if type \<noteq> idle then [Now (Call type Play)] else [])
          @ [Now (Log ''Transition started'')])"

text \<open>
  The alias table \<open>animationMap\<close> is an object literal, so a lookup also finds what every
  object inherits.  A lower-cased name can hit two inherited properties, \<open>constructor\<close>
  and \<open>__proto__\<close>; their values are truthy and are no key of \<open>animationActions\<close>.
\<close>

datatype map_lookup = Own AnimationType | Inherited | Missing

definition animationMap :: "string \<Rightarrow> map_lookup" where
  "animationMap name =
     (if name = ''greeting'' then Own greeting
      else if name = ''idle'' then Own idle
      else if name = ''hiphopdance'' then Own waveHipHop
      else if name = ''wavehiphopdance'' then Own waveHipHop
      else if name = ''northernsoulspin'' then Own northernSoulSpin
      else if name = ''spin'' then Own northernSoulSpin
      else if name = ''constructor'' \<or> name = ''__proto__'' then Inherited
      else Missing)"

text \<open>
  \<open>String.prototype.toLowerCase\<close> on the ASCII capitals (codes 65 to 90); other bytes
  stay as they are.
\<close>

definition lower_char :: "char \<Rightarrow> char" where
  "lower_char c =
     (if (65::nat) \<le> of_char c \<and> of_char c \<le> (90::nat)
      then char_of (of_char c + (32::nat)) else c)"

definition toLowerCase :: "string \<Rightarrow> string" where
  "toLowerCase s = map lower_char s"

record AnimationTrigger =
  animation :: string
  triggerTimestamp :: int

text \<open>
  The effect that handles \<open>animationTrigger\<close> (its field \<open>timestamp\<close> is
  \<open>triggerTimestamp\<close> here).  \<open>playAnimationReady\<close> says that
  \<open>playAnimationRef.current\<close> has been set.  With an inherited value as type,
  \<open>playAnimation\<close> finds no action and returns at once.
\<close>

definition handle_trigger :: "bool \<Rightarrow> action_refs \<Rightarrow> AnimationTrigger option \<Rightarrow> scheduled list" where
  "handle_trigger playAnimationReady refs animationTrigger =
     (case animationTrigger of
        None \<Rightarrow> []
      | Some trigger \<Rightarrow>
          if \<not> playAnimationReady then []
          else
            [Now (Log ''Animation trigger received'')]
            @ (case animationMap (toLowerCase (animation trigger)) of
                 Own animationType \<Rightarrow> playAnimation refs animationType (1 / 2)
               | Inherited \<Rightarrow> []
               | Missing \<Rightarrow> [Now (Warn ''Unknown animation'')]))"

text \<open>The calls a list of scheduled effects makes on the actions: at once, or at all.\<close>

fun calls_of :: "effect list \<Rightarrow> (AnimationType \<times> action_call) list" where
  "calls_of [] = []"
| "calls_of (Call k m # es) = (k, m) # calls_of es"
| "calls_of (_ # es) = calls_of es"

fun timed :: "rat \<Rightarrow> scheduled list \<Rightarrow> (rat \<times> AnimationType \<times> action_call) list" where
  "timed t [] = []"
| "timed t (Now e # ss) = map (\<lambda>c. (t, c)) (calls_of [e]) @ timed t ss"
| "timed t (SetTimeout delay es # ss) = map (\<lambda>c. (t + delay, c)) (calls_of es) @ timed t ss"

text \<open>
  A request to \<open>playAnimation\<close> at a clock reading (milliseconds), and the calls a
  sequence of requests makes on the actions, each with the time at which it is made: the
  time of the request or, for a \<open>setTimeout\<close> callback, that time plus the delay.
\<close>

record request =
  req_time :: rat
  refs_seen :: action_refs
  target :: AnimationType
  crossfade :: rat

definition timeline :: "request list \<Rightarrow> (rat \<times> AnimationType \<times> action_call) list" where
  "timeline reqs =
     concat (map (\<lambda>r. timed (req_time r) (playAnimation (refs_seen r) (target r) (crossfade r))) reqs)"

text \<open>The calls that take an action out of the blend: disabling, stopping, resetting.\<close>

definition cleanup_call :: "action_call \<Rightarrow> bool" where
  "cleanup_call m = (m = SetEnabled False \<or> m = Stop \<or> m = Reset)"

text \<open>
  The deferral the claim C6 asks for: once a fade-out of an action over \<open>d\<close> seconds has
  been started at time \<open>t\<close>, no cleanup call on that action is made from \<open>t\<close> on before
  \<open>t + 1000 d\<close>, the end of the fade.
\<close>

definition deferred_after_fade :: "(rat \<times> AnimationType \<times> action_call) list \<Rightarrow> bool" where
  "deferred_after_fade calls =
     (\<forall>(t, k, m) \<in> set calls. \<forall>(t', k', m') \<in> set calls.
        (case m of
           FadeOut d \<Rightarrow> k' = k \<and> cleanup_call m' \<and> t \<le> t' \<longrightarrow> t + d * 1000 \<le> t'
         | _ \<Rightarrow> True))"

definition active :: "action_refs \<Rightarrow> AnimationType \<Rightarrow> bool" where
  "active refs k = (case refs k of None \<Rightarrow> False | Some a \<Rightarrow> isRunning a \<or> paused a)"

text \<open>A warning on the console, now or from a timer.\<close>

fun is_warn :: "effect \<Rightarrow> bool" where
  "is_warn (Warn w) = True"
| "is_warn _ = False"

fun warned :: "scheduled list \<Rightarrow> bool" where
  "warned [] = False"
| "warned (Now e # ss) = (is_warn e \<or> warned ss)"
| "warned (SetTimeout delay es # ss) = (list_ex is_warn es \<or> warned ss)"

text \<open>Two scenes: all four actions registered, idle running and the greeting held paused
  on its last frame; and a scene in which only the idle action was ever registered.\<close>

definition refs_greeting_paused :: action_refs where
  "refs_greeting_paused =
     (\<lambda>k. if k = idle then Some \<lparr>isRunning = True, paused = False\<rparr>
          else if k = greeting then Some \<lparr>isRunning = False, paused = True\<rparr>
          else Some \<lparr>isRunning = False, paused = False\<rparr>)"

definition refs_only_idle :: action_refs where
  "refs_only_idle = (\<lambda>k. if k = idle then Some \<lparr>isRunning = True, paused = False\<rparr> else None)"

text \<open>
  The expression part of the frame loop \<open>animate\<close>: the \<open>setValue\<close> calls made on the
  expression manager for a smoothed estimate and a blink value (\<open>blink\<close> here, the
  source's local \<open>blinkValue\<close>), in order, and the
  weights they leave behind when \<open>setValue\<close> stores its argument under the name.
\<close>

datatype ExpressionName = Vis VisemeType | Blink

definition allVisemes :: "VisemeType list" where
  "allVisemes = [aa, ee, ih, oh, ou]"

definition expression_calls :: "VisemeEstimate \<Rightarrow> rat \<Rightarrow> (ExpressionName \<times> rat) list" where
  "expression_calls smoothedViseme blink =
     map (\<lambda>v. (Vis v, 0)) allVisemes
     @ (if viseme smoothedViseme \<noteq> neutral \<and> intensity smoothedViseme > 1 / 10
        then [(Vis (viseme smoothedViseme), intensity smoothedViseme)] else [])
     @ (if blink > 0 then [(Blink, blink)] else [])"

definition setValue :: "ExpressionName \<times> rat \<Rightarrow> (ExpressionName \<Rightarrow> rat) \<Rightarrow> (ExpressionName \<Rightarrow> rat)" where
  "setValue c weights = weights(fst c := snd c)"

definition weights_after :: "(ExpressionName \<times> rat) list \<Rightarrow> (ExpressionName \<Rightarrow> rat) \<Rightarrow> (ExpressionName \<Rightarrow> rat)" where
  "weights_after calls weights = fold setValue calls weights"

section \<open>Skeletal retargeter (\<open>loadMixamoAnimation\<close>)\<close>

text \<open>
  Numbers that may be undefined or not finite: \<open>Num\<close> is a finite number, \<open>NonFinite\<close>
  stands for \<open>NaN\<close> and the infinities, and for \<open>undefined\<close> once it enters
  arithmetic.  Sums, differences and products with a non-finite operand are non-finite,
  so is every division by zero, and so is a quotient with a \<open>NaN\<close> or \<open>undefined\<close>
  operand, the only non-finite operands the division of the source meets.
\<close>

datatype jsnum = Num rat | NonFinite

fun jadd :: "jsnum \<Rightarrow> jsnum \<Rightarrow> jsnum" where
  "jadd (Num a) (Num b) = Num (a + b)"
| "jadd _ _ = NonFinite"

fun jsub :: "jsnum \<Rightarrow> jsnum \<Rightarrow> jsnum" where
  "jsub (Num a) (Num b) = Num (a - b)"
| "jsub _ _ = NonFinite"

fun jmul :: "jsnum \<Rightarrow> jsnum \<Rightarrow> jsnum" where
  "jmul (Num a) (Num b) = Num (a * b)"
| "jmul _ _ = NonFinite"

fun jdiv :: "jsnum \<Rightarrow> jsnum \<Rightarrow> jsnum" where
  "jdiv (Num a) (Num b) = (if b = 0 then NonFinite else Num (a / b))"
| "jdiv _ _ = NonFinite"

fun jneg :: "jsnum \<Rightarrow> jsnum" where
  "jneg (Num a) = Num (- a)"
| "jneg NonFinite = NonFinite"

fun jabs :: "jsnum \<Rightarrow> jsnum" where
  "jabs (Num a) = Num \<bar>a\<bar>"
| "jabs NonFinite = NonFinite"

definition of_optional :: "rat option \<Rightarrow> jsnum" where
  "of_optional v = (case v of None \<Rightarrow> NonFinite | Some a \<Rightarrow> Num a)"

text \<open>
  \<open>THREE.Quaternion\<close> with the operations the loader uses: \<open>multiplyQuaternions\<close>
  (\<open>q.multiply(b)\<close> is \<open>q * b\<close>, \<open>q.premultiply(a)\<close> is \<open>a * q\<close>), \<open>invert\<close>, which
  conjugates, and the array conversions, where a component read past the end of the
  array is \<open>undefined\<close>.
\<close>

record Quaternion =
  qx :: jsnum
  qy :: jsnum
  qz :: jsnum
  qw :: jsnum

definition identityQuaternion :: Quaternion where
  "identityQuaternion = \<lparr>qx = Num 0, qy = Num 0, qz = Num 0, qw = Num 1\<rparr>"

definition multiplyQuaternions :: "Quaternion \<Rightarrow> Quaternion \<Rightarrow> Quaternion" where
  "multiplyQuaternions a b =
     \<lparr>qx = jsub (jadd (jadd (jmul (qx a) (qw b)) (jmul (qw a) (qx b))) (jmul (qy a) (qz b))) (jmul (qz a) (qy b)),
      qy = jsub (jadd (jadd (jmul (qy a) (qw b)) (jmul (qw a) (qy b))) (jmul (qz a) (qx b))) (jmul (qx a) (qz b)),
      qz = jsub (jadd (jadd (jmul (qz a) (qw b)) (jmul (qw a) (qz b))) (jmul (qx a) (qy b))) (jmul (qy a) (qx b)),
      qw = jsub (jsub (jsub (jmul (qw a) (qw b)) (jmul (qx a) (qx b))) (jmul (qy a) (qy b))) (jmul (qz a) (qz b))\<rparr>"

definition invert :: "Quaternion \<Rightarrow> Quaternion" where
  "invert q = \<lparr>qx = jneg (qx q), qy = jneg (qy q), qz = jneg (qz q), qw = qw q\<rparr>"

definition element :: "jsnum list \<Rightarrow> nat \<Rightarrow> jsnum" where
  "element xs i = (if i < length xs then xs ! i else NonFinite)"

definition fromArray :: "jsnum list \<Rightarrow> Quaternion" where
  "fromArray xs = \<lparr>qx = element xs 0, qy = element xs 1, qz = element xs 2, qw = element xs 3\<rparr>"

definition toArray :: "Quaternion \<Rightarrow> jsnum list" where
  "toArray q = [qx q, qy q, qz q, qw q]"

text \<open>
  Keyframe tracks and clips as the FBX decoder hands them over.  The fields \<open>name\<close>,
  \<open>times\<close> and \<open>values\<close> of a track are \<open>track_name\<close>, \<open>track_times\<close> and \<open>track_values\<close>;
  the class of a track is its \<open>kind\<close>.
\<close>

datatype track_kind = QuaternionKeyframeTrack | VectorKeyframeTrack | OtherKeyframeTrack

record KeyframeTrack =
  kind :: track_kind
  track_name :: string
  track_times :: "rat list"
  track_values :: "jsnum list"

record AnimationClip =
  clip_name :: string
  duration :: rat
  tracks :: "KeyframeTrack list"

text \<open>
  What the loader reads of the donor skeleton: per node found by \<open>getObjectByName\<close> its
  \<open>position.y\<close>, its rest-pose world rotation and that of its parent, if it has one.
\<close>

record donor_node =
  position_y :: rat
  worldQuaternion :: Quaternion
  parentWorldQuaternion :: "Quaternion option"

record asset =
  animations :: "AnimationClip list"
  getObjectByName :: "string \<Rightarrow> donor_node option"

text \<open>
  What the loader reads of the target: the normalized bone node of a humanoid bone name
  (its name and the height of its world position), absent when there is no humanoid or
  no such bone; the height of the scene root; and \<open>meta?.metaVersion\<close>.
\<close>

record bone_node =
  node_name :: string
  world_y :: rat

record VRM =
  getNormalizedBoneNode :: "string \<Rightarrow> bone_node option"
  scene_world_y :: rat
  metaVersion :: "string option"

definition mixamoVRMRigMap :: "string \<Rightarrow> string option" where
  "mixamoVRMRigMap = map_of
     [(''mixamorigHips'', ''hips''),
      (''mixamorigSpine'', ''spine''),
      (''mixamorigSpine1'', ''chest''),
      (''mixamorigSpine2'', ''upperChest''),
      (''mixamorigNeck'', ''neck''),
      (''mixamorigHead'', ''head''),
      (''mixamorigLeftShoulder'', ''leftShoulder''),
      (''mixamorigLeftArm'', ''leftUpperArm''),
      (''mixamorigLeftForeArm'', ''leftLowerArm''),
      (''mixamorigLeftHand'', ''leftHand''),
      (''mixamorigLeftHandThumb1'', ''leftThumbMetacarpal''),
      (''mixamorigLeftHandThumb2'', ''leftThumbProximal''),
      (''mixamorigLeftHandThumb3'', ''leftThumbDistal''),
      (''mixamorigLeftHandIndex1'', ''leftIndexProximal''),
      (''mixamorigLeftHandIndex2'', ''leftIndexIntermediate''),
      (''mixamorigLeftHandIndex3'', ''leftIndexDistal''),
      (''mixamorigLeftHandMiddle1'', ''leftMiddleProximal''),
      (''mixamorigLeftHandMiddle2'', ''leftMiddleIntermediate''),
      (''mixamorigLeftHandMiddle3'', ''leftMiddleDistal''),
      (''mixamorigLeftHandRing1'', ''leftRingProximal''),
      (''mixamorigLeftHandRing2'', ''leftRingIntermediate''),
      (''mixamorigLeftHandRing3'', ''leftRingDistal''),
      (''mixamorigLeftHandPinky1'', ''leftLittleProximal''),
      (''mixamorigLeftHandPinky2'', ''leftLittleIntermediate''),
      (''mixamorigLeftHandPinky3'', ''leftLittleDistal''),
      (''mixamorigRightShoulder'', ''rightShoulder''),
      (''mixamorigRightArm'', ''rightUpperArm''),
      (''mixamorigRightForeArm'', ''rightLowerArm''),
      (''mixamorigRightHand'', ''rightHand''),
      (''mixamorigRightHandPinky1'', ''rightLittleProximal''),
      (''mixamorigRightHandPinky2'', ''rightLittleIntermediate''),
      (''mixamorigRightHandPinky3'', ''rightLittleDistal''),
      (''mixamorigRightHandRing1'', ''rightRingProximal''),
      (''mixamorigRightHandRing2'', ''rightRingIntermediate''),
      (''mixamorigRightHandRing3'', ''rightRingDistal''),
      (''mixamorigRightHandMiddle1'', ''rightMiddleProximal''),
      (''mixamorigRightHandMiddle2'', ''rightMiddleIntermediate''),
      (''mixamorigRightHandMiddle3'', ''rightMiddleDistal''),
      (''mixamorigRightHandIndex1'', ''rightIndexProximal''),
      (''mixamorigRightHandIndex2'', ''rightIndexIntermediate''),
      (''mixamorigRightHandIndex3'', ''rightIndexDistal''),
      (''mixamorigRightHandThumb1'', ''rightThumbMetacarpal''),
      (''mixamorigRightHandThumb2'', ''rightThumbProximal''),
      (''mixamorigRightHandThumb3'', ''rightThumbDistal''),
      (''mixamorigLeftUpLeg'', ''leftUpperLeg''),
      (''mixamorigLeftLeg'', ''leftLowerLeg''),
      (''mixamorigLeftFoot'', ''leftFoot''),
      (''mixamorigLeftToeBase'', ''leftToes''),
      (''mixamorigRightUpLeg'', ''rightUpperLeg''),
      (''mixamorigRightLeg'', ''rightLowerLeg''),
      (''mixamorigRightFoot'', ''rightFoot''),
      (''mixamorigRightToeBase'', ''rightToes'')]"

text \<open>\<open>name.split('.')\<close>.\<close>

fun split_dot :: "string \<Rightarrow> string list" where
  "split_dot [] = [[]]"
| "split_dot (c # cs) =
     (if c = CHR ''.'' then [] # split_dot cs
      else (case split_dot cs of w # ws \<Rightarrow> (c # w) # ws | [] \<Rightarrow> [[c]]))"

text \<open>
  The loop over the samples of a rotation track: each slice of four values (a shorter one
  at the end of an array whose length is no multiple of four) is read as a quaternion,
  multiplied by the parent's rest rotation on the left and the inverse rest rotation on
  the right, and written back over the slice.
\<close>

definition retarget_slice :: "Quaternion \<Rightarrow> Quaternion \<Rightarrow> jsnum list \<Rightarrow> jsnum list" where
  "retarget_slice parentRestWorldRotation restRotationInverse flatQuaternion =
     (let quatA = fromArray flatQuaternion;
          quatA = multiplyQuaternions parentRestWorldRotation quatA;
          quatA = multiplyQuaternions quatA restRotationInverse
      in take (length flatQuaternion) (toArray quatA))"

fun retarget_values :: "Quaternion \<Rightarrow> Quaternion \<Rightarrow> jsnum list \<Rightarrow> jsnum list" where
  "retarget_values p r [] = []"
| "retarget_values p r (a # b # c # d # rest) = retarget_slice p r [a, b, c, d] @ retarget_values p r rest"
| "retarget_values p r short = retarget_slice p r short"

text \<open>The sign conventions of the two output maps, by index into the flat array.\<close>

definition flip_rotation :: "bool \<Rightarrow> jsnum list \<Rightarrow> jsnum list" where
  "flip_rotation meta0 vs = map (\<lambda>(v, i). if meta0 \<and> i mod 2 = 0 then jneg v else v) (zip vs [0..<length vs])"

definition scale_translation :: "bool \<Rightarrow> jsnum \<Rightarrow> jsnum list \<Rightarrow> jsnum list" where
  "scale_translation meta0 scale vs =
     map (\<lambda>(v, i). jmul (if meta0 \<and> i mod 3 \<noteq> 1 then jneg v else v) scale)
       (zip vs [0..<length vs])"

text \<open>
  The state the \<open>forEach\<close> over the donor tracks carries along: the output tracks, the two
  scratch quaternions, which keep their value from earlier tracks when a node or its
  parent is missing, and the donor tracks themselves, whose rotation values the loop
  overwrites.
\<close>

record retarget_state =
  out_tracks :: "KeyframeTrack list"
  restRotationInverse :: Quaternion
  parentRestWorldRotation :: Quaternion
  donor_tracks :: "KeyframeTrack list"

definition retarget_track :: "asset \<Rightarrow> VRM \<Rightarrow> jsnum \<Rightarrow> KeyframeTrack \<Rightarrow> retarget_state \<Rightarrow> retarget_state" where
  "retarget_track asset vrm scale track st =
     (let trackSplitted = split_dot (track_name track);
          mixamoRigName = hd trackSplitted;
          vrmNodeName = (case mixamoVRMRigMap mixamoRigName of
                           None \<Rightarrow> None
                         | Some vrmBoneName \<Rightarrow> map_option node_name (getNormalizedBoneNode vrm vrmBoneName));
          mixamoRigNode = getObjectByName asset mixamoRigName;
          meta0 = (metaVersion vrm = Some ''0'')
      in case vrmNodeName of
           None \<Rightarrow> st\<lparr>donor_tracks := donor_tracks st @ [track]\<rparr>
         | Some nodeName \<Rightarrow>
             let propertyName = (if length trackSplitted > 1 then trackSplitted ! 1 else ''undefined'');
                 st = (case mixamoRigNode of
                         None \<Rightarrow> st
                       | Some node \<Rightarrow>
                           let st = st\<lparr>restRotationInverse := invert (worldQuaternion node)\<rparr>
                           in case parentWorldQuaternion node of
                                None \<Rightarrow> st
                              | Some q \<Rightarrow> st\<lparr>parentRestWorldRotation := q\<rparr>)
             in if kind track = QuaternionKeyframeTrack then
                  let track = track\<lparr>track_values :=
                                      retarget_values (parentRestWorldRotation st) (restRotationInverse st)
                                        (track_values track)\<rparr>
                  in st\<lparr>out_tracks := out_tracks st @
                          [\<lparr>kind = QuaternionKeyframeTrack,
                            track_name = nodeName @ ''.'' @ propertyName,
                            track_times = track_times track,
                            track_values = flip_rotation meta0 (track_values track)\<rparr>],
                        donor_tracks := donor_tracks st @ [track]\<rparr>
                else if kind track = VectorKeyframeTrack then
                  st\<lparr>out_tracks := out_tracks st @
                          [\<lparr>kind = VectorKeyframeTrack,
                            track_name = nodeName @ ''.'' @ propertyName,
                            track_times = track_times track,
                            track_values = scale_translation meta0 scale (track_values track)\<rparr>],
                     donor_tracks := donor_tracks st @ [track]\<rparr>
                else st\<lparr>donor_tracks := donor_tracks st @ [track]\<rparr>)"

text \<open>
  The hips scale (the source's local \<open>hipsPositionScale\<close>, computed before the loop and
  passed to it as \<open>scale\<close>), and \<open>loadMixamoAnimation\<close> from the decoded asset on.  The result is the thrown error
  message, or the new clip together with the donor clip as the call leaves it.
\<close>

definition hipsPositionScale :: "asset \<Rightarrow> VRM \<Rightarrow> jsnum" where
  "hipsPositionScale asset vrm =
     (let motionHipsHeight = of_optional (map_option position_y (getObjectByName asset ''mixamorigHips''));
          vrmHipsY = of_optional (map_option world_y (getNormalizedBoneNode vrm ''hips''));
          vrmRootY = Num (scene_world_y vrm);
          vrmHipsHeight = jabs (jsub vrmHipsY vrmRootY)
      in jdiv vrmHipsHeight motionHipsHeight)"

definition loadMixamoAnimation :: "asset \<Rightarrow> VRM \<Rightarrow> string + AnimationClip \<times> AnimationClip" where
  "loadMixamoAnimation asset vrm =
     (case find (\<lambda>c. clip_name c = ''mixamo.com'') (animations asset) of
        None \<Rightarrow> Inl ''Animation clip not found in FBX file''
      | Some clip \<Rightarrow>
          let st = fold (retarget_track asset vrm (hipsPositionScale asset vrm)) (tracks clip)
                     \<lparr>out_tracks = [], restRotationInverse = identityQuaternion,
                      parentRestWorldRotation = identityQuaternion, donor_tracks = []\<rparr>
          in Inr (\<lparr>clip_name = ''vrmAnimation'', duration = duration clip, tracks = out_tracks st\<rparr>,
                  clip\<lparr>tracks := donor_tracks st\<rparr>))"

text \<open>
  Whether the loop retargets a track as a rotation: its joint maps to a node of the
  target and it is a quaternion track.
\<close>

definition mapped_node :: "VRM \<Rightarrow> KeyframeTrack \<Rightarrow> string option" where
  "mapped_node vrm track =
     (case mixamoVRMRigMap (hd (split_dot (track_name track))) of
        None \<Rightarrow> None
      | Some vrmBoneName \<Rightarrow> map_option node_name (getNormalizedBoneNode vrm vrmBoneName))"

definition retargeted_rotation :: "VRM \<Rightarrow> KeyframeTrack \<Rightarrow> bool" where
  "retargeted_rotation vrm track =
     (mapped_node vrm track \<noteq> None \<and> kind track = QuaternionKeyframeTrack)"

text \<open>
  How a donor track after the call relates to the track before it: class, name and times
  are kept, and the values are kept too unless the track was retargeted as a rotation,
  in which case they are the retargeted values.
\<close>

definition overwritten_by :: "VRM \<Rightarrow> KeyframeTrack \<Rightarrow> KeyframeTrack \<Rightarrow> bool" where
  "overwritten_by vrm before after =
     (kind after = kind before \<and> track_name after = track_name before
      \<and> track_times after = track_times before
      \<and> (if retargeted_rotation vrm before
          then \<exists>p r. track_values after = retarget_values p r (track_values before)
          else after = before))"

text \<open>
  Running the loader a second time on the asset as the first run left it, with the donor
  clip it overwrote in place of the original.
\<close>

fun replace_clip :: "AnimationClip \<Rightarrow> AnimationClip list \<Rightarrow> AnimationClip list" where
  "replace_clip donor [] = []"
| "replace_clip donor (c # cs) =
     (if clip_name c = ''mixamo.com'' then donor # cs else c # replace_clip donor cs)"

definition asset_after :: "asset \<Rightarrow> VRM \<Rightarrow> asset" where
  "asset_after a vrm =
     (case loadMixamoAnimation a vrm of
        Inl e \<Rightarrow> a
      | Inr (out, donor) \<Rightarrow> a\<lparr>animations := replace_clip donor (animations a)\<rparr>)"

definition output_clip :: "asset \<Rightarrow> VRM \<Rightarrow> AnimationClip option" where
  "output_clip a vrm = (case loadMixamoAnimation a vrm of Inl e \<Rightarrow> None | Inr (out, donor) \<Rightarrow> Some out)"

text \<open>
  A target with a hips bone one unit above the scene root, and two donor assets: one whose
  clip moves the hips but whose hierarchy has no object named \<open>mixamorigHips\<close>, and one
  with a hips node at rest rotation (3/5, 0, 0, 4/5) and a one-sample rotation track.
\<close>

definition target_vrm :: VRM where
  "target_vrm =
     \<lparr>getNormalizedBoneNode =
        (\<lambda>b. if b = ''hips'' then Some \<lparr>node_name = ''Normalized_Hips'', world_y = 1\<rparr> else None),
      scene_world_y = 0,
      metaVersion = Some ''1''\<rparr>"

definition asset_without_hips_node :: asset where
  "asset_without_hips_node =
     \<lparr>animations =
        [\<lparr>clip_name = ''mixamo.com'', duration = 2,
          tracks = [\<lparr>kind = VectorKeyframeTrack, track_name = ''mixamorigHips.position'',
                     track_times = [0, 1], track_values = [Num 0, Num 100, Num 0, Num 0, Num 101, Num 2]\<rparr>]\<rparr>],
      getObjectByName = (\<lambda>n. None)\<rparr>"

definition asset_rotated_hips :: asset where
  "asset_rotated_hips =
     \<lparr>animations =
        [\<lparr>clip_name = ''mixamo.com'', duration = 2,
          tracks = [\<lparr>kind = QuaternionKeyframeTrack, track_name = ''mixamorigHips.quaternion'',
                     track_times = [0], track_values = [Num 0, Num 0, Num 0, Num 1]\<rparr>]\<rparr>],
      getObjectByName =
        (\<lambda>n. if n = ''mixamorigHips''
             then Some \<lparr>position_y = 100,
                        worldQuaternion = \<lparr>qx = Num (3 / 5), qy = Num 0, qz = Num 0, qw = Num (4 / 5)\<rparr>,
                        parentWorldQuaternion = Some identityQuaternion\<rparr>
             else None)\<rparr>"

section \<open>Properties of the classifiers\<close>

text \<open>Rounding keeps the sign, and sends no positive number to 0.\<close>

lemma scaled_ratio:
  assumes q: "0 < q" and s: "scaled p q e = (n, d)"
  shows "0 < d \<and> (of_int n / of_int d :: rat) = (of_int p / of_int q) / 2 powi e"
proof (cases "0 \<le> e")
  case True
  then have "n = p" "d = q * 2 ^ nat e" using s by (simp_all add: scaled_def)
  then show ?thesis using q True by (simp add: power_int_def)
next
  case False
  then have "n = p * 2 ^ nat (- e)" "d = q" using s by (simp_all add: scaled_def)
  then show ?thesis using q False by (simp add: power_int_def power_inverse field_simps)
qed

lemma one_le_divide_D:
  fixes b c :: rat
  assumes "0 < c" and "1 \<le> b / c"
  shows "c \<le> b"
  using assms by (simp add: pos_le_divide_eq)

lemma one_le_divide_I:
  fixes b c :: rat
  assumes "0 < c" and "c \<le> b"
  shows "1 \<le> b / c"
  using assms by (simp add: pos_le_divide_eq)

lemma round_even_ge_div: "n div d \<le> round_even n d"
  by (simp add: round_even_def Let_def)

lemma exponent_le:
  assumes p: "0 < p" and q: "0 < q"
  shows "(2::rat) powi (exponent p q) \<le> of_int p / of_int q"
proof -
  define g where "g = bitlen p - bitlen q"
  obtain n d where s: "scaled p q g = (n, d)" by (cases "scaled p q g")
  have d: "0 < d" and r: "(of_int n / of_int d :: rat) = (of_int p / of_int q) / 2 powi g"
    using scaled_ratio [OF q s] by simp_all
  have ex: "exponent p q = (if d \<le> n then g else g - 1)"
    by (simp add: exponent_def Let_def g_def [symmetric] s)
  show ?thesis
  proof (cases "d \<le> n")
    case True
    then have "(of_int d :: rat) \<le> of_int n" by (simp only: of_int_le_iff)
    then have "(1::rat) \<le> of_int n / of_int d" using d by (simp add: pos_le_divide_eq)
    then have "(1::rat) \<le> (of_int p / of_int q) / 2 powi g" unfolding r .
    then have "(2::rat) powi g \<le> of_int p / of_int q" by (rule one_le_divide_D [rotated]) simp
    then show ?thesis using True ex by simp
  next
    case False
    have bp: "0 < bitlen p"
      using p bitlen_nonneg [of p] bitlen_eq_zero_iff [of p] by linarith
    have bq: "0 < bitlen q"
      using q bitlen_nonneg [of q] bitlen_eq_zero_iff [of q] by linarith
    have "(2::int) ^ nat (bitlen p - 1) \<le> p" using bitlen_bounds [OF p] by simp
    then have "(of_int ((2::int) ^ nat (bitlen p - 1)) :: rat) \<le> of_int p" by (simp only: of_int_le_iff)
    then have lo: "(2::rat) powi (bitlen p - 1) \<le> of_int p"
      using bp by (simp add: power_int_def)
    have "q < (2::int) ^ nat (bitlen q)" using bitlen_bounds [OF q] by simp
    then have "(of_int q :: rat) < of_int ((2::int) ^ nat (bitlen q))" by (simp only: of_int_less_iff)
    then have hi: "of_int q < (2::rat) powi (bitlen q)"
      using bq by (simp add: power_int_def)
    have "(2::rat) powi (g - 1) = 2 powi (bitlen p - 1) / 2 powi (bitlen q)"
      by (simp add: g_def power_int_diff)
    also have "\<dots> \<le> of_int p / 2 powi (bitlen q)"
      using lo by (simp add: divide_right_mono)
    also have "\<dots> \<le> of_int p / of_int q"
      using hi p q by (simp add: frac_le)
    finally show ?thesis using False ex by simp
  qed
qed

lemma fl64_nonneg:
  assumes x: "0 \<le> x"
  shows "0 \<le> fl64 x"
proof -
  obtain p q where pq: "quotient_of x = (p, q)" by (cases "quotient_of x")
  have q: "0 < q" using pq by (rule quotient_of_denom_pos)
  have xeq: "x = of_int p / of_int q" using pq by (rule quotient_of_div)
  have p: "0 \<le> p" using x q unfolding xeq by (simp add: zero_le_divide_iff)
  define e where "e = exponent \<bar>p\<bar> q - 52"
  obtain n d where s: "scaled \<bar>p\<bar> q e = (n, d)" by (cases "scaled \<bar>p\<bar> q e")
  obtain n' d' where s': "scaled (round_even n d) 1 (- e) = (n', d')"
    by (cases "scaled (round_even n d) 1 (- e)")
  have d: "0 < d" and r: "(of_int n / of_int d :: rat) = (of_int \<bar>p\<bar> / of_int q) / 2 powi e"
    using scaled_ratio [OF q s] by simp_all
  have "(0::rat) \<le> of_int n / of_int d" unfolding r using p q by simp
  then have "0 \<le> n" using d by (simp add: zero_le_divide_iff)
  then have "0 \<le> n div d" using d by (simp add: pos_imp_zdiv_nonneg_iff)
  then have m: "0 \<le> round_even n d" using round_even_ge_div [of n d] by linarith
  have d': "0 < d'"
    and r': "(of_int n' / of_int d' :: rat) = (of_int (round_even n d) / of_int 1) / 2 powi (- e)"
    using scaled_ratio [OF zero_less_one s'] by simp_all
  have "(0::rat) \<le> of_int n' / of_int d'" unfolding r' using m by simp
  moreover have "fl64 x = (if p = 0 then 0 else of_int (if p < 0 then - n' else n') / of_int d')"
    unfolding fl64_def pq Let_def prod.case e_def [symmetric] s s' ..
  ultimately show ?thesis using p by simp
qed

lemma fl64_pos:
  assumes x: "0 < x"
  shows "0 < fl64 x"
proof -
  obtain p q where pq: "quotient_of x = (p, q)" by (cases "quotient_of x")
  have q: "0 < q" using pq by (rule quotient_of_denom_pos)
  have xeq: "x = of_int p / of_int q" using pq by (rule quotient_of_div)
  have p: "0 < p" using x q unfolding xeq by (simp add: zero_less_divide_iff)
  define e where "e = exponent \<bar>p\<bar> q - 52"
  obtain n d where s: "scaled \<bar>p\<bar> q e = (n, d)" by (cases "scaled \<bar>p\<bar> q e")
  obtain n' d' where s': "scaled (round_even n d) 1 (- e) = (n', d')"
    by (cases "scaled (round_even n d) 1 (- e)")
  have d: "0 < d" and r: "(of_int n / of_int d :: rat) = (of_int \<bar>p\<bar> / of_int q) / 2 powi e"
    using scaled_ratio [OF q s] by simp_all
  define c :: rat where "c = 2 powi 52"
  have c: "1 \<le> c" unfolding c_def by simp
  have "(2::rat) powi e * c = 2 powi (exponent p q)"
    using p by (simp add: e_def c_def power_int_diff)
  also have "\<dots> \<le> of_int p / of_int q" using p q by (rule exponent_le)
  finally have big: "(2::rat) powi e * c \<le> of_int p / of_int q" .
  have le: "(2::rat) powi e * 1 \<le> 2 powi e * c" by (rule mult_left_mono) (simp_all add: c)
  have "(2::rat) powi e \<le> of_int p / of_int q" using order_trans [OF le big] by simp
  then have "(1::rat) \<le> (of_int p / of_int q) / 2 powi e"
    by (rule one_le_divide_I [rotated]) simp
  moreover have "\<bar>p\<bar> = p" using p by simp
  ultimately have "(1::rat) \<le> of_int n / of_int d"
    unfolding r by simp
  then have "(of_int d :: rat) \<le> of_int n"
    by (rule one_le_divide_D [rotated]) (simp add: d)
  then have "d \<le> n" by (simp only: of_int_le_iff)
  then have "1 \<le> n div d" using d by (simp add: pos_imp_zdiv_pos_iff Suc_le_eq int_one_le_iff_zero_less)
  then have m: "0 < round_even n d" using round_even_ge_div [of n d] by linarith
  have d': "0 < d'"
    and r': "(of_int n' / of_int d' :: rat) = (of_int (round_even n d) / of_int 1) / 2 powi (- e)"
    using scaled_ratio [OF zero_less_one s'] by simp_all
  have "(0::rat) < of_int n' / of_int d'" unfolding r' using m by simp
  moreover have "fl64 x = (if p = 0 then 0 else of_int (if p < 0 then - n' else n') / of_int d')"
    unfolding fl64_def pq Let_def prod.case e_def [symmetric] s s' ..
  ultimately show ?thesis using p by simp
qed

lemma fl64_22050: "fl64 (44100 / 2) = 22050"
  by code_simp

lemma band_loop_closed:
  "0 \<le> i \<Longrightarrow>
   band_loop fd e i s c =
     (s + sum_list (map (\<lambda>b. of_nat (unat b)) (take (nat (e + 1 - i)) (drop (nat i) fd))),
      c + length (take (nat (e + 1 - i)) (drop (nat i) fd)))"
proof (induction fd e i s c rule: band_loop.induct)
  case (1 fd e i s c)
  show ?case
  proof (cases "i \<le> e \<and> i < int (length fd)")
    case True
    then have lt: "nat i < length fd" using "1.prems" by linarith
    have n1: "nat (e + 1 - i) = Suc (nat (e + 1 - (i + 1)))" using True by linarith
    have n2: "nat (i + 1) = Suc (nat i)" using "1.prems" by linarith
    have d: "drop (nat i) fd = fd ! nat i # drop (Suc (nat i)) fd"
      using lt by (simp add: Cons_nth_drop_Suc)
    have "band_loop fd e i s c = band_loop fd e (i + 1) (s + of_nat (unat (fd ! nat i))) (c + 1)"
      using True by (subst band_loop.simps) simp
    also have "\<dots> = (s + of_nat (unat (fd ! nat i))
                      + sum_list (map (\<lambda>b. of_nat (unat b)) (take (nat (e + 1 - (i + 1))) (drop (nat (i + 1)) fd))),
                   c + 1 + length (take (nat (e + 1 - (i + 1))) (drop (nat (i + 1)) fd)))"
      using "1.IH" [OF True] "1.prems" by simp
    finally show ?thesis
      unfolding n1 d n2 by (simp add: add.assoc)
  next
    case False
    have b: "band_loop fd e i s c = (s, c)"
      by (subst band_loop.simps) (rule if_not_P [OF False])
    have t: "take (nat (e + 1 - i)) (drop (nat i) fd) = []"
      using False "1.prems" by auto
    show ?thesis unfolding b t by simp
  qed
qed

lemma mean_magnitude_nonneg: "0 \<le> mean_magnitude xs"
proof -
  have "0 \<le> sum_list (map (\<lambda>b. (of_nat (unat b) :: rat)) xs) / of_nat (length xs)"
    by (auto simp del: of_nat_unat intro!: divide_nonneg_nonneg sum_list_nonneg)
  then show ?thesis
    unfolding mean_magnitude_def using fl64_nonneg by simp
qed

lemma getAmplitudeInBand_closed:
  assumes "0 \<le> startHz"
  shows "getAmplitudeInBand fd startHz endHz 44100 = mean_magnitude (band_bins fd startHz endHz)"
proof -
  define binWidth :: rat where "binWidth = fl64 (22050 / of_nat (length fd))"
  have "0 \<le> binWidth" unfolding binWidth_def by (rule fl64_nonneg) simp
  then have "0 \<le> startHz / binWidth" using assms by simp
  then have "0 \<le> fl64 (startHz / binWidth)" by (rule fl64_nonneg)
  then have s0: "0 \<le> \<lfloor>fl64 (startHz / binWidth)\<rfloor>" by simp
  show ?thesis
    unfolding getAmplitudeInBand_def band_bins_def Let_def fl64_22050 binWidth_def [symmetric]
    by (simp add: band_loop_closed [OF s0] mean_magnitude_def)
qed

lemma compute_scores_closed:
  "compute_scores fd 44100 v = formant_score fd v"
  by (cases v)
     (simp_all add: compute_scores_def visemes5_def score_step_def formant_score_def
        getAmplitudeInBand_closed)

lemma formant_score_nonneg: "0 \<le> formant_score fd v"
  by (simp add: formant_score_def mean_magnitude_nonneg fl64_nonneg split: option.splits)

lemma fold_max_step:
  "fold (max_step sc) vs (m0, d0) =
     (let M = Max (insert m0 (sc ` set vs))
      in (M, if M = m0 then d0 else hd (filter (\<lambda>v. sc v = M) vs)))"
proof (induction vs arbitrary: m0 d0)
  case Nil
  then show ?case by simp
next
  case (Cons v vs)
  show ?case
  proof (cases "sc v > m0")
    case True
    define X where "X = Max (insert (sc v) (sc ` set vs))"
    have ge: "sc v \<le> X" unfolding X_def by (rule Max_ge) auto
    have "Max (insert m0 (insert (sc v) (sc ` set vs))) = max m0 X"
      unfolding X_def by (rule Max_insert) auto
    then have M: "Max (insert m0 (sc ` set (v # vs))) = X"
      using True ge by (simp add: max_def del: Max_insert)
    have step: "max_step sc v (m0, d0) = (sc v, v)"
      using True by (simp add: max_step_def)
    have "fold (max_step sc) (v # vs) (m0, d0) = fold (max_step sc) vs (sc v, v)"
      by (simp add: step)
    also have "\<dots> = (X, if X = sc v then v else hd (filter (\<lambda>u. sc u = X) vs))"
      unfolding Cons.IH X_def Let_def ..
    also have "\<dots> = (X, if X = m0 then d0 else hd (filter (\<lambda>u. sc u = X) (v # vs)))"
      using True ge by auto
    finally show ?thesis unfolding M Let_def .
  next
    case False
    define X where "X = Max (insert m0 (sc ` set vs))"
    have ge: "m0 \<le> X" unfolding X_def by (rule Max_ge) auto
    have i: "insert m0 (sc ` set (v # vs)) = insert (sc v) (insert m0 (sc ` set vs))" by auto
    have "Max (insert (sc v) (insert m0 (sc ` set vs))) = max (sc v) X"
      unfolding X_def by (rule Max_insert) auto
    then have M: "Max (insert m0 (sc ` set (v # vs))) = X"
      unfolding i using False ge by (simp add: max_def del: Max_insert)
    have step: "max_step sc v (m0, d0) = (m0, d0)"
      using False by (simp add: max_step_def)
    have "fold (max_step sc) (v # vs) (m0, d0) = fold (max_step sc) vs (m0, d0)"
      by (simp add: step)
    also have "\<dots> = (X, if X = m0 then d0 else hd (filter (\<lambda>u. sc u = X) vs))"
      unfolding Cons.IH X_def Let_def ..
    also have "\<dots> = (X, if X = m0 then d0 else hd (filter (\<lambda>u. sc u = X) (v # vs)))"
      using False ge by auto
    finally show ?thesis unfolding M Let_def .
  qed
qed

lemma find_max_closed:
  "find_max (formant_score fd) =
     (let M = Max (formant_score fd ` set visemes5)
      in (M, if M = 0 then neutral else hd (filter (\<lambda>v. formant_score fd v = M) visemes5)))"
proof -
  have "formant_score fd aa \<le> Max (formant_score fd ` set visemes5)"
    by (rule Max_ge) (simp_all add: visemes5_def)
  then have "0 \<le> Max (formant_score fd ` set visemes5)"
    using formant_score_nonneg [of fd aa] by linarith
  moreover have "Max (insert 0 (formant_score fd ` set visemes5))
                 = max 0 (Max (formant_score fd ` set visemes5))"
    by (rule Max_insert) (simp_all add: visemes5_def)
  ultimately have "Max (insert 0 (formant_score fd ` set visemes5)) = Max (formant_score fd ` set visemes5)"
    by (simp add: max_def del: Max_insert)
  then show ?thesis
    unfolding find_max_def fold_max_step by simp
qed

lemma totalAmplitude_closed:
  "totalAmplitude fd = sum_list (map (\<lambda>b. of_nat (unat b)) fd)"
proof -
  have "fold (\<lambda>b acc. acc + of_nat (unat b)) fd a = a + sum_list (map (\<lambda>b. (of_nat (unat b)::rat)) fd)" for a
    by (induction fd arbitrary: a) (simp_all add: add.assoc)
  then show ?thesis by (simp add: totalAmplitude_def)
qed

text \<open>
  C1 (as amended).  An absent or empty frame, or one whose mean magnitude is below 10,
  is classified (neutral, 0).  Otherwise each of the five visemes scores the mean
  magnitude of its F1 band plus that of its F2 band, a band being the bins from
  \<open>floor (minHz / binWidth)\<close> up to and including \<open>ceil (maxHz / binWidth)\<close>, cut off
  at the last bin (an empty band has mean 0), with \<open>binWidth = sampleRate / 2 / binCount\<close>;
  the result is the first viseme, in the order aa, ee, ih, oh, ou, of maximal score,
  or neutral when the maximal score is below 20, with intensity
  \<open>min 1 (maxScore / 150)\<close>.  Every quotient, mean and score is the binary64 number the
  program computes: \<open>mean_magnitude\<close>, \<open>band_bins\<close> and \<open>formant_score\<close> round as the
  source does.
\<close>

theorem frequencyToViseme_closed:
  "frequencyToViseme fd =
     (case fd of
        None \<Rightarrow> \<lparr>viseme = neutral, intensity = 0\<rparr>
      | Some frequencyData \<Rightarrow>
          if frequencyData = [] \<or> mean_magnitude frequencyData < 10
          then \<lparr>viseme = neutral, intensity = 0\<rparr>
          else
            let maxScore = Max (formant_score frequencyData ` set visemes5)
            in \<lparr>viseme = (if maxScore < 20 then neutral
                         else hd (filter (\<lambda>v. formant_score frequencyData v = maxScore) visemes5)),
                intensity = min 1 (fl64 (maxScore / 150))\<rparr>)"
proof (cases fd)
  case None
  then show ?thesis by (simp add: frequencyToViseme_def)
next
  case (Some frequencyData)
  have cs: "compute_scores frequencyData 44100 = formant_score frequencyData"
    by (rule ext) (rule compute_scores_closed)
  have mm: "frequencyData \<noteq> [] \<Longrightarrow>
            fl64 (totalAmplitude frequencyData / of_nat (length frequencyData)) = mean_magnitude frequencyData"
    by (simp add: totalAmplitude_closed mean_magnitude_def)
  show ?thesis
  proof (cases "frequencyData = []")
    case True
    then show ?thesis using Some by (simp add: frequencyToViseme_def)
  next
    case False
    then show ?thesis
      using Some mm [OF False]
      by (simp add: frequencyToViseme_def cs find_max_closed Let_def MIN_SCORE_THRESHOLD_def
            del: of_nat_unat)
  qed
qed

text \<open>
  The claim C1 as stated fails on a 16-bin frame with magnitudes 60 and 30 in bins 1 and
  2 and 255 in the last bin.  The source's bands give ee the best score, 75, and so the
  intensity 1/2.  With bins found by rounding the best score is 60 (intensity 2/5) when
  the bands are half-open, and 90 (intensity 3/5, for aa) when they are inclusive, each
  intensity being the binary64 number next to the fraction.
\<close>

theorem claimed_bands_counterexample:
  "\<not> claimed_classification False (Some [0, 60, 30, 0, 0, 0, 0, 0, 0, 0, 0, 0, 0, 0, 0, 255])
        (frequencyToViseme (Some [0, 60, 30, 0, 0, 0, 0, 0, 0, 0, 0, 0, 0, 0, 0, 255]))
   \<and> \<not> claimed_classification True (Some [0, 60, 30, 0, 0, 0, 0, 0, 0, 0, 0, 0, 0, 0, 0, 255])
        (frequencyToViseme (Some [0, 60, 30, 0, 0, 0, 0, 0, 0, 0, 0, 0, 0, 0, 0, 255]))"
proof -
  have r: "frequencyToViseme (Some [0, 60, 30, 0, 0, 0, 0, 0, 0, 0, 0, 0, 0, 0, 0, 255])
             = \<lparr>viseme = ee, intensity = 1 / 2\<rparr>"
    by code_simp
  have a: "\<not> claimed_classification False (Some [0, 60, 30, 0, 0, 0, 0, 0, 0, 0, 0, 0, 0, 0, 0, 255])
             \<lparr>viseme = ee, intensity = 1 / 2\<rparr>"
    by code_simp
  have b: "\<not> claimed_classification True (Some [0, 60, 30, 0, 0, 0, 0, 0, 0, 0, 0, 0, 0, 0, 0, 255])
             \<lparr>viseme = ee, intensity = 1 / 2\<rparr>"
    by code_simp
  show ?thesis unfolding r by (rule conjI [OF a b])
qed

text \<open>
  Where the rounding decides.  On a 64-bin frame with magnitudes 60, 10, 30, 60, 40, 30
  in bins 2 to 7 and 8 in bins 9 to 63, the scores of ee and oh are both 190/3 in exact
  arithmetic; the binary64 sums differ in the last place, oh has the larger one, and oh
  is returned although ee comes first.  With 1029 bins the quotient \<open>600 / binWidth\<close>,
  28 exactly, comes out just above 28, and the band that ends at 600 Hz reads bin 29 too.
\<close>

lemma frequencyToViseme_rounded_tie:
  "frequencyToViseme (Some [0, 0, 60, 10, 30, 60, 40, 30, 0, 8, 8, 8, 8, 8, 8, 8, 8, 8, 8, 8, 8, 8, 8, 8,
        8, 8, 8, 8, 8, 8, 8, 8, 8, 8, 8, 8, 8, 8, 8, 8, 8, 8, 8, 8, 8, 8, 8, 8, 8, 8, 8, 8, 8, 8, 8, 8,
        8, 8, 8, 8, 8, 8, 8, 8])
     = \<lparr>viseme = oh, intensity = 7606079370670171 / 18014398509481984\<rparr>"
  by code_simp

lemma formant_score_rounded_tie:
  "formant_score [0, 0, 60, 10, 30, 60, 40, 30, 0, 8, 8, 8, 8, 8, 8, 8, 8, 8, 8, 8, 8, 8, 8, 8,
        8, 8, 8, 8, 8, 8, 8, 8, 8, 8, 8, 8, 8, 8, 8, 8, 8, 8, 8, 8, 8, 8, 8, 8, 8, 8, 8, 8, 8, 8, 8, 8,
        8, 8, 8, 8, 8, 8, 8, 8] ee
   < formant_score [0, 0, 60, 10, 30, 60, 40, 30, 0, 8, 8, 8, 8, 8, 8, 8, 8, 8, 8, 8, 8, 8, 8, 8,
        8, 8, 8, 8, 8, 8, 8, 8, 8, 8, 8, 8, 8, 8, 8, 8, 8, 8, 8, 8, 8, 8, 8, 8, 8, 8, 8, 8, 8, 8, 8, 8,
        8, 8, 8, 8, 8, 8, 8, 8] oh"
  by code_simp

lemma band_limit_rounded:
  "\<lceil>fl64 (600 / fl64 (fl64 (44100 / 2) / 1029))\<rceil> = 29
   \<and> \<lceil>(600::rat) / (44100 / 2 / 1029)\<rceil> = 28"
  by code_simp

lemma formant_shape:
  "frequencyToViseme fd = \<lparr>viseme = neutral, intensity = 0\<rparr>
   \<or> (\<exists>frequencyData. fd = Some frequencyData \<and> frequencyData \<noteq> []
        \<and> 10 \<le> fl64 (totalAmplitude frequencyData / of_nat (length frequencyData))
        \<and> frequencyToViseme fd =
            \<lparr>viseme = (if fst (find_max (compute_scores frequencyData 44100)) < MIN_SCORE_THRESHOLD
                        then neutral else snd (find_max (compute_scores frequencyData 44100))),
             intensity = min 1 (fl64 (fst (find_max (compute_scores frequencyData 44100)) / 150))\<rparr>)"
proof (cases fd)
  case None
  then show ?thesis by (simp add: frequencyToViseme_def)
next
  case (Some frequencyData)
  show ?thesis
  proof (cases "frequencyData = [] \<or> fl64 (totalAmplitude frequencyData / of_nat (length frequencyData)) < 10")
    case True
    then show ?thesis using Some by (auto simp add: frequencyToViseme_def)
  next
    case False
    then show ?thesis using Some
      by (simp add: frequencyToViseme_def Let_def case_prod_beta not_less)
  qed
qed

lemma features_chain:
  fixes i :: rat
  assumes "1 / 10 \<le> i"
  shows "1 / 20 \<le> intensity
           (if A then \<lparr>viseme = aa, intensity = i\<rparr>
            else if B then \<lparr>viseme = ee, intensity = i\<rparr>
            else if C then \<lparr>viseme = ih, intensity = i\<rparr>
            else if D then \<lparr>viseme = oh, intensity = i\<rparr>
            else if E then \<lparr>viseme = ou, intensity = i\<rparr>
            else \<lparr>viseme = neutral, intensity = i * (1 / 2)\<rparr>)"
  using assms by simp

lemma features_shape:
  "frequencyToViseme_features fd = \<lparr>viseme = neutral, intensity = 0\<rparr>
   \<or> 1 / 20 \<le> intensity (frequencyToViseme_features fd)"
proof (cases fd)
  case None
  then show ?thesis by (simp add: frequencyToViseme_features_def)
next
  case (Some frequencyData)
  show ?thesis
  proof (cases "frequencyData = [] \<or> volume (extractFeatures frequencyData 44100) < 10")
    case True
    then show ?thesis using Some by (auto simp add: frequencyToViseme_features_def Let_def)
  next
    case False
    then have m: "1 / 10 \<le> min 1 (volume (extractFeatures frequencyData 44100) / 100)" by simp
    have l: "(length frequencyData = 0) = False" "(volume (extractFeatures frequencyData 44100) < 10) = False"
      using False by simp_all
    have "1 / 20 \<le> intensity (frequencyToViseme_features (Some frequencyData))"
      unfolding frequencyToViseme_features_def Let_def option.case l if_False
      by (rule features_chain [OF m])
    then show ?thesis using Some by simp
  qed
qed

lemma formant_intensity_of_speech:
  "viseme (frequencyToViseme fd) \<noteq> neutral \<Longrightarrow> 0 < intensity (frequencyToViseme fd)"
proof -
  assume v: "viseme (frequencyToViseme fd) \<noteq> neutral"
  then have n: "frequencyToViseme fd \<noteq> \<lparr>viseme = neutral, intensity = 0\<rparr>" by auto
  from formant_shape [of fd] n obtain frequencyData where
    r: "frequencyToViseme fd =
          \<lparr>viseme = (if fst (find_max (compute_scores frequencyData 44100)) < MIN_SCORE_THRESHOLD
                      then neutral else snd (find_max (compute_scores frequencyData 44100))),
           intensity = min 1 (fl64 (fst (find_max (compute_scores frequencyData 44100)) / 150))\<rparr>"
    by blast
  define m where "m = fst (find_max (compute_scores frequencyData 44100))"
  have "\<not> m < MIN_SCORE_THRESHOLD" using v unfolding r m_def by (simp split: if_splits)
  then have "0 < m / 150" by (simp add: MIN_SCORE_THRESHOLD_def)
  then have "0 < fl64 (m / 150)" by (rule fl64_pos)
  then show ?thesis unfolding r m_def [symmetric] by simp
qed

lemma formant_zero_intensity_neutral:
  "intensity (frequencyToViseme fd) = 0 \<Longrightarrow> viseme (frequencyToViseme fd) = neutral"
  using formant_intensity_of_speech [of fd] by auto

lemma features_zero_intensity_neutral:
  "intensity (frequencyToViseme_features fd) = 0 \<Longrightarrow> viseme (frequencyToViseme_features fd) = neutral"
  using features_shape [of fd] by auto

lemma features_intensity_of_speech:
  "viseme (frequencyToViseme_features fd) \<noteq> neutral \<Longrightarrow> 1 / 20 \<le> intensity (frequencyToViseme_features fd)"
  using features_shape [of fd] by auto

text \<open>
  C2 (as amended).  In the raw output of either classifier an intensity of 0 occurs only
  with the neutral viseme, and every non-neutral viseme comes with a positive intensity.
  The converse direction of the claim does not hold: a neutral result may carry a
  non-zero intensity.
\<close>

theorem classifier_zero_intensity_only_neutral:
  "(intensity (frequencyToViseme fd) = 0 \<longrightarrow> viseme (frequencyToViseme fd) = neutral)
   \<and> (viseme (frequencyToViseme fd) \<noteq> neutral \<longrightarrow> 0 < intensity (frequencyToViseme fd))
   \<and> (intensity (frequencyToViseme_features fd) = 0 \<longrightarrow> viseme (frequencyToViseme_features fd) = neutral)
   \<and> (viseme (frequencyToViseme_features fd) \<noteq> neutral \<longrightarrow> 0 < intensity (frequencyToViseme_features fd))"
proof -
  have a: "viseme (frequencyToViseme fd) \<noteq> neutral \<longrightarrow> 0 < intensity (frequencyToViseme fd)"
    using formant_intensity_of_speech [of fd] by auto
  have b: "viseme (frequencyToViseme_features fd) \<noteq> neutral
           \<longrightarrow> 0 < intensity (frequencyToViseme_features fd)"
    using features_intensity_of_speech [of fd] by auto
  show ?thesis
    using a b formant_zero_intensity_neutral [of fd] features_zero_intensity_neutral [of fd]
    by blast
qed

theorem classifier_zero_intensity_only_neutral_witness:
  "intensity (frequencyToViseme (Some [])) = 0
   \<and> viseme (frequencyToViseme (Some [])) = neutral
   \<and> intensity (frequencyToViseme_features (Some [])) = 0
   \<and> viseme (frequencyToViseme_features (Some [])) = neutral
   \<and> viseme (frequencyToViseme (Some [200, 200, 0, 0, 0, 0, 0, 0, 0, 0, 0, 0, 0, 0, 0, 0])) \<noteq> neutral
   \<and> 0 < intensity (frequencyToViseme (Some [200, 200, 0, 0, 0, 0, 0, 0, 0, 0, 0, 0, 0, 0, 0, 0]))
   \<and> viseme (frequencyToViseme_features (Some [200, 200, 0, 0, 0, 0, 0, 0, 0, 0, 0, 0, 0, 0, 0, 0])) \<noteq> neutral
   \<and> 0 < intensity (frequencyToViseme_features (Some [200, 200, 0, 0, 0, 0, 0, 0, 0, 0, 0, 0, 0, 0, 0, 0]))"
proof -
  have z1: "intensity (frequencyToViseme (Some [])) = 0"
    by (simp add: frequencyToViseme_def)
  have z2: "intensity (frequencyToViseme_features (Some [])) = 0"
    by (simp add: frequencyToViseme_features_def)
  have s1: "viseme (frequencyToViseme (Some [200, 200, 0, 0, 0, 0, 0, 0, 0, 0, 0, 0, 0, 0, 0, 0])) \<noteq> neutral"
    by code_simp
  have s2: "viseme (frequencyToViseme_features (Some [200, 200, 0, 0, 0, 0, 0, 0, 0, 0, 0, 0, 0, 0, 0, 0])) \<noteq> neutral"
    by code_simp
  show ?thesis
    using z1 z2 s1 s2
      classifier_zero_intensity_only_neutral [of "Some []"]
      classifier_zero_intensity_only_neutral [of "Some [200, 200, 0, 0, 0, 0, 0, 0, 0, 0, 0, 0, 0, 0, 0, 0]"]
    by blast
qed

text \<open>
  The claim C2 as stated fails: a 16-bin frame that is loud overall (mean magnitude
  above 10) but weak inside every formant band (best score 15, below the minimum score
  of 20) is classified neutral with intensity 0.1, the binary64 number next to 15/150.  The earlier classifier finds the
  same frame ambiguous and returns neutral with half its volume-based intensity, 57/640.
\<close>

theorem classifier_neutral_nonzero_counterexample:
  "\<not> (intensity (frequencyToViseme (Some [0, 0, 30, 0, 0, 0, 0, 0, 0, 0, 0, 0, 0, 0, 0, 255])) = 0
      \<longleftrightarrow> viseme (frequencyToViseme (Some [0, 0, 30, 0, 0, 0, 0, 0, 0, 0, 0, 0, 0, 0, 0, 255])) = neutral)
   \<and> \<not> (intensity (frequencyToViseme_features (Some [0, 0, 30, 0, 0, 0, 0, 0, 0, 0, 0, 0, 0, 0, 0, 255])) = 0
      \<longleftrightarrow> viseme (frequencyToViseme_features (Some [0, 0, 30, 0, 0, 0, 0, 0, 0, 0, 0, 0, 0, 0, 0, 255])) = neutral)"
proof -
  have f: "frequencyToViseme (Some [0, 0, 30, 0, 0, 0, 0, 0, 0, 0, 0, 0, 0, 0, 0, 255])
             = \<lparr>viseme = neutral, intensity = 3602879701896397 / 36028797018963968\<rparr>"
    by code_simp
  have g: "frequencyToViseme_features (Some [0, 0, 30, 0, 0, 0, 0, 0, 0, 0, 0, 0, 0, 0, 0, 255])
             = \<lparr>viseme = neutral, intensity = 57 / 640\<rparr>"
    by code_simp
  show ?thesis unfolding f g by simp
qed

section \<open>Properties of the smoother\<close>

lemma add_history:
  "history (snd (add s v x now)) =
     (let h1 = history s @ [\<lparr>viseme = v, intensity = x, timestamp = now\<rparr>]
      in if length h1 > historySize then tl h1 else h1)"
  by (simp add: add_def Let_def case_prod_beta)

lemma add_bootstrap:
  "length (history (snd (add s v x now))) < 2 \<Longrightarrow>
   fst (add s v x now) = \<lparr>viseme = v, intensity = x\<rparr>
   \<and> lastViseme (snd (add s v x now)) = lastViseme s
   \<and> lastVisemeTime (snd (add s v x now)) = lastVisemeTime s"
  by (simp add: add_def Let_def case_prod_beta historySize_def split: if_splits)

lemma add_unfold:
  assumes "\<not> length (history (snd (add s v x now))) < 2"
  shows "snd (add s v x now) =
           (let h2 = history (snd (add s v x now));
                shouldChange =
                  (x > 1 / 2
                   \<or> (candidate h2 \<noteq> lastViseme s \<and> now - lastVisemeTime s > minDuration)
                   \<or> (length h2 \<ge> 2 \<and> viseme (h2 ! (length h2 - 1)) = viseme (h2 ! (length h2 - 2))))
            in if shouldChange
               then s\<lparr>history := h2, lastViseme := candidate h2, lastVisemeTime := now\<rparr>
               else s\<lparr>history := h2\<rparr>)"
    and "fst (add s v x now) =
           \<lparr>viseme = lastViseme (snd (add s v x now)),
            intensity = snd (weigh (history (snd (add s v x now))))
                        / of_nat (length (history (snd (add s v x now))))\<rparr>"
proof -
  define h2 where "h2 = (let h1 = history s @ [\<lparr>viseme = v, intensity = x, timestamp = now\<rparr>]
                         in if length h1 > historySize then tl h1 else h1)"
  have h: "history (snd (add s v x now)) = h2"
    unfolding h2_def by (rule add_history)
  have n: "(length h2 < 2) = False" using assms h by simp
  have h2': "(if historySize < length (history s @ [\<lparr>viseme = v, intensity = x, timestamp = now\<rparr>])
              then tl (history s @ [\<lparr>viseme = v, intensity = x, timestamp = now\<rparr>])
              else history s @ [\<lparr>viseme = v, intensity = x, timestamp = now\<rparr>]) = h2"
    by (simp add: h2_def Let_def)
  have a: "add s v x now =
        (let (scores, totalIntensity) = weigh h2;
             (maxScore, bestViseme) = best scores;
             shouldChange =
               (x > 1 / 2
                \<or> (bestViseme \<noteq> lastViseme (s\<lparr>history := h2\<rparr>)
                    \<and> now - lastVisemeTime (s\<lparr>history := h2\<rparr>) > minDuration)
                \<or> (length h2 \<ge> 2 \<and> viseme (h2 ! (length h2 - 1)) = viseme (h2 ! (length h2 - 2))));
             s2 = (if shouldChange then s\<lparr>history := h2\<rparr>\<lparr>lastViseme := bestViseme, lastVisemeTime := now\<rparr>
                   else s\<lparr>history := h2\<rparr>);
             avgIntensity = totalIntensity / of_nat (length h2)
         in (\<lparr>viseme = lastViseme s2, intensity = avgIntensity\<rparr>, s2))"
    unfolding add_def Let_def h2' n if_False ..
  show "snd (add s v x now) =
           (let h2 = history (snd (add s v x now));
                shouldChange =
                  (x > 1 / 2
                   \<or> (candidate h2 \<noteq> lastViseme s \<and> now - lastVisemeTime s > minDuration)
                   \<or> (length h2 \<ge> 2 \<and> viseme (h2 ! (length h2 - 1)) = viseme (h2 ! (length h2 - 2))))
            in if shouldChange
               then s\<lparr>history := h2, lastViseme := candidate h2, lastVisemeTime := now\<rparr>
               else s\<lparr>history := h2\<rparr>)"
    unfolding h by (simp add: a Let_def case_prod_beta candidate_def)
  show "fst (add s v x now) =
           \<lparr>viseme = lastViseme (snd (add s v x now)),
            intensity = snd (weigh (history (snd (add s v x now))))
                        / of_nat (length (history (snd (add s v x now))))\<rparr>"
    unfolding h by (simp add: a Let_def case_prod_beta)
qed

lemma add_lastViseme:
  assumes "\<not> length (history (snd (add s v x now))) < 2"
  shows "lastViseme (snd (add s v x now)) =
           (if x > 1 / 2
               \<or> (candidate (history (snd (add s v x now))) \<noteq> lastViseme s
                   \<and> now - lastVisemeTime s > minDuration)
               \<or> (length (history (snd (add s v x now))) \<ge> 2
                   \<and> viseme (history (snd (add s v x now)) ! (length (history (snd (add s v x now))) - 1))
                       = viseme (history (snd (add s v x now)) ! (length (history (snd (add s v x now))) - 2)))
            then candidate (history (snd (add s v x now)))
            else lastViseme s)"
  by (subst add_unfold(1) [OF assms]) (simp add: Let_def)

text \<open>
  C3.  A call of \<open>add\<close> assigns the held viseme at most once, and only ever to the
  recency-weighted candidate.  If the held viseme after the call differs from the one
  before, then the input intensity exceeds 0.5, or the candidate differs from the
  previously held viseme and at least 30 ms (in the source: more than 30 ms) have passed
  since the last committed change, or the two most recent history entries carry the same
  viseme.
\<close>

theorem add_commits_only_on_trigger:
  assumes "add s v x now = (r, s')"
    and "lastViseme s' \<noteq> lastViseme s"
  shows "lastViseme s' = candidate (history s')
         \<and> (x > 1 / 2
            \<or> (candidate (history s') \<noteq> lastViseme s \<and> now - lastVisemeTime s \<ge> 30)
            \<or> (length (history s') \<ge> 2
                \<and> viseme (history s' ! (length (history s') - 1))
                    = viseme (history s' ! (length (history s') - 2))))"
proof -
  have s': "snd (add s v x now) = s'" using assms(1) by simp
  have n: "\<not> length (history (snd (add s v x now))) < 2"
    using add_bootstrap [of s v x now] assms(2) unfolding s' by blast
  show ?thesis
    using add_lastViseme [OF n] assms(2) unfolding s'
    by (simp add: minDuration_def split: if_splits)
qed

theorem add_commits_only_on_trigger_witness:
  "lastViseme (snd (add \<lparr>history = [\<lparr>viseme = aa, intensity = 1 / 5, timestamp = 1000\<rparr>],
                         lastViseme = neutral, lastVisemeTime = 0\<rparr> ee (1 / 5) 1016)) \<noteq> neutral
   \<and> lastViseme (snd (add \<lparr>history = [\<lparr>viseme = aa, intensity = 1 / 5, timestamp = 1000\<rparr>],
                         lastViseme = neutral, lastVisemeTime = 0\<rparr> ee (1 / 5) 1016)) = ee
   \<and> candidate (history (snd (add \<lparr>history = [\<lparr>viseme = aa, intensity = 1 / 5, timestamp = 1000\<rparr>],
                         lastViseme = neutral, lastVisemeTime = 0\<rparr> ee (1 / 5) 1016))) = ee
   \<and> (1016 :: int) - 0 \<ge> 30"
proof -
  define s where "s = \<lparr>history = [\<lparr>viseme = aa, intensity = 1 / 5, timestamp = 1000\<rparr>],
                        lastViseme = neutral, lastVisemeTime = 0\<rparr>"
  have e: "add s ee (1 / 5) 1016 = (fst (add s ee (1 / 5) 1016), snd (add s ee (1 / 5) 1016))"
    by simp
  have l: "lastViseme (snd (add s ee (1 / 5) 1016)) = ee"
    unfolding s_def by code_simp
  then have c: "lastViseme (snd (add s ee (1 / 5) 1016)) \<noteq> lastViseme s"
    by (simp add: s_def)
  show ?thesis
    using add_commits_only_on_trigger [OF e c] l unfolding s_def by simp
qed

lemma weigh_fold_total:
  "snd (fold (weigh_step n) ps acc) =
     snd acc + sum_list (map (\<lambda>ie. intensity (snd ie) * (of_nat (fst ie + 1) / of_nat n)) ps)"
  by (induction ps arbitrary: acc) (simp_all add: weigh_step_def Let_def add.assoc)

lemma weigh_total:
  "snd (weigh h) =
     sum_list (map (\<lambda>ie. intensity (snd ie) * (of_nat (fst ie + 1) / of_nat (length h)))
                (zip [0..<length h] h))"
  by (simp add: weigh_def weigh_fold_total)

text \<open>
  What \<open>add\<close> reports once the history holds two or more entries: the recency-weighted
  sum of the intensities, divided by the number of entries (not by the total weight).
\<close>

lemma add_reported_intensity:
  assumes "\<not> length (history (snd (add s v x now))) < 2"
  shows "intensity (fst (add s v x now)) =
           sum_list (map (\<lambda>ie. intensity (snd ie)
                                * (of_nat (fst ie + 1) / of_nat (length (history (snd (add s v x now))))))
                      (zip [0..<length (history (snd (add s v x now)))] (history (snd (add s v x now)))))
           / of_nat (length (history (snd (add s v x now))))"
  by (subst add_unfold(2) [OF assms]) (simp add: weigh_total)

lemma add_intensity_independent_of_held:
  "intensity (fst (add (s\<lparr>lastViseme := a, lastVisemeTime := t\<rparr>) v x now))
   = intensity (fst (add s v x now))"
  by (simp add: add_def Let_def case_prod_beta)

text \<open>
  C4 at its failing input.  Two samples of intensity 1 pushed into a fresh smoother: the
  second call reports intensity 3/4, whereas a weighted average of the history
  intensities [1, 1] is 1 under the weights \<open>(i + 1) / k\<close>, whether \<open>k\<close> is the capacity 3
  or the current length 2.  A third such sample is reported as 2/3.
\<close>

theorem add_intensity_at_constant_input:
  "intensity (fst (add (snd (add new_VisemeSmoother aa 1 1000)) aa 1 1016)) = 3 / 4
   \<and> map intensity (history (snd (add (snd (add new_VisemeSmoother aa 1 1000)) aa 1 1016))) = [1, 1]
   \<and> weighted_average (recency_weights 3 2) [1, 1] = 1
   \<and> weighted_average (recency_weights 2 2) [1, 1] = 1
   \<and> intensity (fst (add (snd (add (snd (add new_VisemeSmoother aa 1 1000)) aa 1 1016)) aa 1 1032)) = 2 / 3
   \<and> weighted_average (recency_weights 3 3) [1, 1, 1] = 1"
  by code_simp

section \<open>Properties of the blink state machine\<close>






lemma blink_run_lastBlinkTime:
  "state s \<noteq> Idle \<Longrightarrow> \<forall>p \<in> set (blink_run s ts). lastBlinkTime (snd p) = lastBlinkTime s"
proof (induction ts arbitrary: s)
  case Nil
  then show ?case by simp
next
  case (Cons t ts)
  define s' where "s' = snd (update s (audio t) (clock t) (draw1 t) (draw2 t))"
  have l: "lastBlinkTime s' = lastBlinkTime s"
    using Cons.prems unfolding s'_def
    by (simp add: update_def updateBlinkAnimation_def Let_def)
  show ?case
  proof (cases "state s' = Idle")
    case True
    then show ?thesis using l by (simp add: s'_def [symmetric] Let_def)
  next
    case False
    then show ?thesis using l Cons.IH [OF False] by (simp add: s'_def [symmetric] Let_def)
  qed
qed





section \<open>Properties of the scene\<close>

lemma timed_append: "timed t (xs @ ys) = timed t xs @ timed t ys"
  by (induction t xs rule: timed.induct) simp_all

lemma timed_concat: "timed t (concat xss) = concat (map (timed t) xss)"
  by (induction xss) (simp_all add: timed_append)

lemma timed_log_state: "timed t (log_state refs k) = []"
  by (simp add: log_state_def split: option.splits)

lemma timed_fade_out_one_shot:
  "timed t (fade_out_one_shot refs d k) =
     (if k \<noteq> idle \<and> active refs k
      then [(t, k, FadeOut d), (t + d * 1000, k, SetEnabled False), (t + d * 1000, k, SetPaused False),
            (t + d * 1000, k, Stop), (t + d * 1000, k, Reset)]
      else [])"
  by (simp add: fade_out_one_shot_def active_def Let_def split: option.splits)

lemma timed_playAnimation_idle:
  assumes "refs idle = Some idleAction"
  shows "timed t (playAnimation refs idle d) =
           concat (map (\<lambda>k. timed t (fade_out_one_shot refs d k)) [greeting, waveHipHop, northernSoulSpin])
           @ (if \<not> isRunning idleAction then [(t, idle, Play)] else [])
           @ [(t, idle, SetEnabled True), (t, idle, SetEffectiveTimeScale 1),
              (t, idle, SetEffectiveWeight 1), (t, idle, FadeIn d)]"
  using assms
  by (simp add: playAnimation_def animation_keys_def timed_append timed_concat timed_log_state
        timed_fade_out_one_shot)

lemma set_timed_playAnimation_idle:
  assumes "refs idle = Some idleAction"
  shows "(t', k, m) \<in> set (timed t (playAnimation refs idle d)) \<longleftrightarrow>
           (k \<noteq> idle \<and> active refs k
              \<and> (t' = t \<and> m = FadeOut d
                  \<or> t' = t + d * 1000 \<and> (m = SetEnabled False \<or> m = SetPaused False \<or> m = Stop \<or> m = Reset)))
           \<or> (k = idle \<and> t' = t
              \<and> (m = Play \<and> \<not> isRunning idleAction
                  \<or> m = SetEnabled True \<or> m = SetEffectiveTimeScale 1 \<or> m = SetEffectiveWeight 1
                  \<or> m = FadeIn d))"
  unfolding timed_playAnimation_idle [where refs = refs and idleAction = idleAction, OF assms]
    timed_fade_out_one_shot
  by (cases k) auto

text \<open>
  One request for the background clip idle, taken alone, made at time \<open>t\<close> with a
  non-negative duration \<open>d\<close> (seconds) while the idle action is registered: every one-shot
  action that is running or paused gets \<open>fadeOut(d)\<close> at once, and its disabling,
  stopping and reset are made by a timer callback \<open>1000 d\<close> milliseconds later, so among
  the calls of this one request no cleanup precedes the end of the fade.  The idle action
  gets \<open>play()\<close> exactly if it was not running, and in either case is faded in over \<open>d\<close>.
\<close>

lemma playAnimation_idle_transition:
  assumes "refs idle = Some idleAction"
    and "0 \<le> d"
  shows "(\<forall>k. k \<noteq> idle \<and> active refs k \<longrightarrow>
            (t, k, FadeOut d) \<in> set (timed t (playAnimation refs idle d))
            \<and> (t + d * 1000, k, SetEnabled False) \<in> set (timed t (playAnimation refs idle d))
            \<and> (t + d * 1000, k, Stop) \<in> set (timed t (playAnimation refs idle d))
            \<and> (t + d * 1000, k, Reset) \<in> set (timed t (playAnimation refs idle d)))
         \<and> (\<forall>t' k m. (t', k, m) \<in> set (timed t (playAnimation refs idle d)) \<and> cleanup_call m
               \<longrightarrow> k \<noteq> idle \<and> t' = t + d * 1000)
         \<and> deferred_after_fade (timed t (playAnimation refs idle d))
         \<and> ((t, idle, Play) \<in> set (timed t (playAnimation refs idle d)) \<longleftrightarrow> \<not> isRunning idleAction)
         \<and> (t, idle, FadeIn d) \<in> set (timed t (playAnimation refs idle d))"
proof -
  note mem = set_timed_playAnimation_idle
    [where refs = refs and idleAction = idleAction and t = t and d = d, OF assms(1)]
  have a: "\<forall>k. k \<noteq> idle \<and> active refs k \<longrightarrow>
            (t, k, FadeOut d) \<in> set (timed t (playAnimation refs idle d))
            \<and> (t + d * 1000, k, SetEnabled False) \<in> set (timed t (playAnimation refs idle d))
            \<and> (t + d * 1000, k, Stop) \<in> set (timed t (playAnimation refs idle d))
            \<and> (t + d * 1000, k, Reset) \<in> set (timed t (playAnimation refs idle d))"
    by (simp add: mem)
  have b: "\<forall>t' k m. (t', k, m) \<in> set (timed t (playAnimation refs idle d)) \<and> cleanup_call m
               \<longrightarrow> k \<noteq> idle \<and> t' = t + d * 1000"
    by (auto simp: mem cleanup_call_def)
  have c: "deferred_after_fade (timed t (playAnimation refs idle d))"
    unfolding deferred_after_fade_def
  proof (intro ballI, clarify)
    fix t1 k1 m1 t2 k2 m2
    assume 1: "(t1, k1, m1) \<in> set (timed t (playAnimation refs idle d))"
      and 2: "(t2, k2, m2) \<in> set (timed t (playAnimation refs idle d))"
    show "case m1 of FadeOut d' \<Rightarrow> k2 = k1 \<and> cleanup_call m2 \<and> t1 \<le> t2 \<longrightarrow> t1 + d' * 1000 \<le> t2
          | _ \<Rightarrow> True"
    proof (cases m1)
      case (FadeOut d')
      then have "d' = d \<and> t1 = t" using 1 by (auto simp: mem)
      moreover have "cleanup_call m2 \<longrightarrow> t2 = t + d * 1000" using 2 b by blast
      ultimately show ?thesis using FadeOut by simp
    qed simp_all
  qed
  have e: "(t, idle, Play) \<in> set (timed t (playAnimation refs idle d)) \<longleftrightarrow> \<not> isRunning idleAction"
    by (simp add: mem)
  have f: "(t, idle, FadeIn d) \<in> set (timed t (playAnimation refs idle d))"
    by (simp add: mem)
  show ?thesis using a b c e f by blast
qed

lemma playAnimation_idle_transition_paused_greeting:
  "(0, greeting, FadeOut (1 / 2)) \<in> set (timed 0 (playAnimation refs_greeting_paused idle (1 / 2)))
   \<and> (500, greeting, SetEnabled False) \<in> set (timed 0 (playAnimation refs_greeting_paused idle (1 / 2)))
   \<and> (500, greeting, Reset) \<in> set (timed 0 (playAnimation refs_greeting_paused idle (1 / 2)))
   \<and> deferred_after_fade (timed 0 (playAnimation refs_greeting_paused idle (1 / 2)))
   \<and> (0, idle, Play) \<notin> set (timed 0 (playAnimation refs_greeting_paused idle (1 / 2)))
   \<and> (0, idle, FadeIn (1 / 2)) \<in> set (timed 0 (playAnimation refs_greeting_paused idle (1 / 2)))"
proof -
  have 1: "refs_greeting_paused idle = Some \<lparr>isRunning = True, paused = False\<rparr>"
    by (simp add: refs_greeting_paused_def)
  have 2: "(0::rat) \<le> 1 / 2" by simp
  have 3: "greeting \<noteq> idle \<and> active refs_greeting_paused greeting"
    by (simp add: refs_greeting_paused_def active_def)
  show ?thesis
    using playAnimation_idle_transition
      [where refs = refs_greeting_paused and idleAction = "\<lparr>isRunning = True, paused = False\<rparr>"
         and d = "1 / 2" and t = 0, OF 1 2] 3
    by auto
qed

text \<open>
  C6 at its failing input.  The greeting is paused on its last frame, and idle is
  requested at 0 ms and again at 300 ms, each time with duration 0.5 s.  The second
  request starts a fade-out of the greeting at 300 ms, which ends at 800 ms.  No timer is
  ever cancelled, so the cleanup that the first request scheduled disables, stops and
  resets the greeting at 500 ms, inside that fade: the disabling is not deferred until
  the fade completes, against the claim and against the comment above the
  \<open>setTimeout\<close> call, which says that stop and reset are delayed until after the fade-out
  completes.
\<close>

theorem stale_cleanup_cuts_later_fade:
  "(300, greeting, FadeOut (1 / 2)) \<in> set
       (timeline [\<lparr>req_time = 0, refs_seen = refs_greeting_paused, target = idle, crossfade = 1 / 2\<rparr>,
                  \<lparr>req_time = 300, refs_seen = refs_greeting_paused, target = idle, crossfade = 1 / 2\<rparr>])
   \<and> (500, greeting, SetEnabled False) \<in> set
       (timeline [\<lparr>req_time = 0, refs_seen = refs_greeting_paused, target = idle, crossfade = 1 / 2\<rparr>,
                  \<lparr>req_time = 300, refs_seen = refs_greeting_paused, target = idle, crossfade = 1 / 2\<rparr>])
   \<and> (500, greeting, Stop) \<in> set
       (timeline [\<lparr>req_time = 0, refs_seen = refs_greeting_paused, target = idle, crossfade = 1 / 2\<rparr>,
                  \<lparr>req_time = 300, refs_seen = refs_greeting_paused, target = idle, crossfade = 1 / 2\<rparr>])
   \<and> (500, greeting, Reset) \<in> set
       (timeline [\<lparr>req_time = 0, refs_seen = refs_greeting_paused, target = idle, crossfade = 1 / 2\<rparr>,
                  \<lparr>req_time = 300, refs_seen = refs_greeting_paused, target = idle, crossfade = 1 / 2\<rparr>])
   \<and> (500::rat) < 300 + (1 / 2) * 1000"
  by code_simp

text \<open>The same two requests, read with the deferral predicate: the cleanup is not deferred.\<close>

lemma stale_cleanup_not_deferred:
  "\<not> deferred_after_fade
       (timeline [\<lparr>req_time = 0, refs_seen = refs_greeting_paused, target = idle, crossfade = 1 / 2\<rparr>,
                  \<lparr>req_time = 300, refs_seen = refs_greeting_paused, target = idle, crossfade = 1 / 2\<rparr>])"
  by code_simp

lemma playAnimation_unregistered: "refs type = None \<Longrightarrow> playAnimation refs type d = []"
  by (simp add: playAnimation_def)

text \<open>
  C7 (as amended).  A trigger whose lower-cased name the alias table maps to no clip, or
  maps to a clip whose action was never registered, is ignored: the handler returns
  normally (no step of it can throw) and makes no call on any action, now or from a
  timer, so the state of every action is as before.  When the lookup of the name in the
  table yields nothing, the handler prints its receipt line and the warning.  When the
  name is an alias of a clip whose action was never registered, it prints the receipt
  line only.
\<close>

theorem ignored_trigger_changes_nothing:
  assumes "case animationMap (toLowerCase (animation trigger)) of
             Own animationType \<Rightarrow> refs animationType = None
           | Inherited \<Rightarrow> True
           | Missing \<Rightarrow> True"
  shows "timed t (handle_trigger True refs (Some trigger)) = []
         \<and> (animationMap (toLowerCase (animation trigger)) = Missing \<longrightarrow>
              handle_trigger True refs (Some trigger)
                = [Now (Log ''Animation trigger received''), Now (Warn ''Unknown animation'')])
         \<and> (\<forall>animationType. animationMap (toLowerCase (animation trigger)) = Own animationType \<longrightarrow>
              handle_trigger True refs (Some trigger) = [Now (Log ''Animation trigger received'')])"
  using assms
  by (cases "animationMap (toLowerCase (animation trigger))")
     (simp_all add: handle_trigger_def playAnimation_unregistered)

theorem ignored_trigger_changes_nothing_witness:
  "handle_trigger True refs_only_idle (Some \<lparr>animation = ''Greeting'', triggerTimestamp = 0\<rparr>)
     = [Now (Log ''Animation trigger received'')]
   \<and> handle_trigger True refs_only_idle (Some \<lparr>animation = ''Moonwalk'', triggerTimestamp = 0\<rparr>)
     = [Now (Log ''Animation trigger received''), Now (Warn ''Unknown animation'')]
   \<and> timed 0 (handle_trigger True refs_only_idle (Some \<lparr>animation = ''Greeting'', triggerTimestamp = 0\<rparr>)) = []
   \<and> timed 0 (handle_trigger True refs_only_idle (Some \<lparr>animation = ''Moonwalk'', triggerTimestamp = 0\<rparr>)) = []"
proof -
  have g: "animationMap (toLowerCase ''Greeting'') = Own greeting" by code_simp
  have m: "animationMap (toLowerCase ''Moonwalk'') = Missing" by code_simp
  have 1: "case animationMap (toLowerCase (animation \<lparr>animation = ''Greeting'', triggerTimestamp = 0\<rparr>)) of
             Own animationType \<Rightarrow> refs_only_idle animationType = None
           | Inherited \<Rightarrow> True | Missing \<Rightarrow> True"
    by (simp add: g refs_only_idle_def)
  have 2: "case animationMap (toLowerCase (animation \<lparr>animation = ''Moonwalk'', triggerTimestamp = 0\<rparr>)) of
             Own animationType \<Rightarrow> refs_only_idle animationType = None
           | Inherited \<Rightarrow> True | Missing \<Rightarrow> True"
    by (simp add: m)
  show ?thesis
    using ignored_trigger_changes_nothing [where refs = refs_only_idle and t = 0, OF 1]
      ignored_trigger_changes_nothing [where refs = refs_only_idle and t = 0, OF 2] g m
    by simp
qed

text \<open>
  The claim C7 as stated fails in its "reported": with only the idle action registered,
  the trigger \<open>Greeting\<close> names the known clip greeting, whose action is missing;
  \<open>playAnimation\<close> returns at its test \<open>if (!newAction) return\<close> and nothing warns that
  the request was dropped.
\<close>

theorem silent_ignore_counterexample:
  "animationMap (toLowerCase ''Greeting'') = Own greeting
   \<and> refs_only_idle greeting = None
   \<and> \<not> warned (handle_trigger True refs_only_idle (Some \<lparr>animation = ''Greeting'', triggerTimestamp = 0\<rparr>))"
  by code_simp

lemma weights_after_append:
  "weights_after (xs @ ys) w = weights_after ys (weights_after xs w)"
  by (simp add: weights_after_def)

lemma weights_after_zeroing:
  "weights_after (map (\<lambda>v. (Vis v, 0)) allVisemes) w (Vis v) = (if v \<in> set allVisemes then 0 else w (Vis v))"
  by (simp add: weights_after_def allVisemes_def setValue_def)

lemma weights_after_zeroing_Blink:
  "weights_after (map (\<lambda>v. (Vis v, 0)) allVisemes) w Blink = w Blink"
  by (simp add: weights_after_def allVisemes_def setValue_def)

text \<open>
  C10 (as amended).  On a frame tick with the expression manager present, all five
  visemes, the held one included, are first set to 0; only after that the held viseme
  is set to the reported intensity, and only if it is not neutral and the intensity
  exceeds 0.1.  So afterwards every viseme other than the held one has weight 0, and
  the held one has the reported intensity if that exceeds 0.1 and weight 0 otherwise.
\<close>

theorem expression_weights_after_tick:
  "(\<forall>v \<in> set allVisemes.
      weights_after (expression_calls sm b) w (Vis v)
        = (if v = viseme sm \<and> intensity sm > 1 / 10 then intensity sm else 0))
   \<and> (\<exists>rest. expression_calls sm b = map (\<lambda>v. (Vis v, 0)) allVisemes @ rest
         \<and> (\<forall>c \<in> set rest.
               (c = (Vis (viseme sm), intensity sm) \<and> viseme sm \<noteq> neutral \<and> intensity sm > 1 / 10)
               \<or> (c = (Blink, b) \<and> b > 0)))"
proof -
  have w: "weights_after (expression_calls sm b) w (Vis v)
        = (if v = viseme sm \<and> intensity sm > 1 / 10 then intensity sm else 0)"
    if "v \<in> set allVisemes" for v
  proof -
    define w1 where "w1 = weights_after (map (\<lambda>v. (Vis v, 0)) allVisemes) w"
    have z: "w1 (Vis v) = 0"
      using that by (simp add: w1_def weights_after_zeroing)
    have "weights_after (expression_calls sm b) w
          = weights_after ((if viseme sm \<noteq> neutral \<and> intensity sm > 1 / 10
                            then [(Vis (viseme sm), intensity sm)] else [])
                           @ (if b > 0 then [(Blink, b)] else [])) w1"
      by (simp add: expression_calls_def weights_after_append w1_def)
    moreover have "v \<noteq> neutral" using that by (auto simp: allVisemes_def)
    ultimately show ?thesis
      using z by (auto simp: weights_after_def setValue_def)
  qed
  have "\<exists>rest. expression_calls sm b = map (\<lambda>v. (Vis v, 0)) allVisemes @ rest
         \<and> (\<forall>c \<in> set rest.
               (c = (Vis (viseme sm), intensity sm) \<and> viseme sm \<noteq> neutral \<and> intensity sm > 1 / 10)
               \<or> (c = (Blink, b) \<and> b > 0))"
    by (rule exI [of _ "(if viseme sm \<noteq> neutral \<and> intensity sm > 1 / 10
                          then [(Vis (viseme sm), intensity sm)] else [])
                        @ (if b > 0 then [(Blink, b)] else [])"])
       (simp add: expression_calls_def)
  then show ?thesis using w by blast
qed

theorem expression_weights_after_tick_witness:
  "weights_after (expression_calls \<lparr>viseme = aa, intensity = 1 / 2\<rparr> 0) (\<lambda>_. 1) (Vis aa) = 1 / 2
   \<and> weights_after (expression_calls \<lparr>viseme = aa, intensity = 1 / 2\<rparr> 0) (\<lambda>_. 1) (Vis ee) = 0"
proof -
  have "aa \<in> set allVisemes" "ee \<in> set allVisemes" by (simp_all add: allVisemes_def)
  then show ?thesis
    using expression_weights_after_tick [of "\<lparr>viseme = aa, intensity = 1 / 2\<rparr>" 0 "\<lambda>_. 1"]
    by auto
qed

text \<open>
  The claim C10 as stated fails for a quiet estimate: the smoother, holding one silent
  sample, reports (aa, 1/15) for the input (aa, 2/15), and the frame loop leaves the
  weight of aa at 0.
\<close>

theorem quiet_viseme_counterexample:
  "fst (add \<lparr>history = [\<lparr>viseme = neutral, intensity = 0, timestamp = 1000\<rparr>],
            lastViseme = neutral, lastVisemeTime = 0\<rparr> aa (2 / 15) 1016)
     = \<lparr>viseme = aa, intensity = 1 / 15\<rparr>
   \<and> weights_after (expression_calls \<lparr>viseme = aa, intensity = 1 / 15\<rparr> 0) (\<lambda>_. 0) (Vis aa) \<noteq> 1 / 15"
  by code_simp

section \<open>Properties of the retargeter\<close>

lemma loadMixamoAnimation_error:
  "loadMixamoAnimation a v = Inl e \<longleftrightarrow>
     find (\<lambda>c. clip_name c = ''mixamo.com'') (animations a) = None
     \<and> e = ''Animation clip not found in FBX file''"
  by (auto simp: loadMixamoAnimation_def Let_def split: option.splits)

lemma hipsPositionScale_unresolved:
  "getObjectByName a ''mixamorigHips'' = None \<or> getNormalizedBoneNode v ''hips'' = None
   \<Longrightarrow> hipsPositionScale a v = NonFinite"
  by (auto simp: hipsPositionScale_def Let_def of_optional_def split: option.splits)

lemma scale_translation_NonFinite:
  "set (scale_translation meta0 NonFinite vs) \<subseteq> {NonFinite}"
  by (auto simp: scale_translation_def)

text \<open>
  C8 at its failing input.  The donor hierarchy has no object named \<open>mixamorigHips\<close>.
  The only error the loader ever raises is the missing clip
  (\<open>loadMixamoAnimation_error\<close>); here it returns a clip whose hips translation track is
  scaled by the undefined hip scale (\<open>hipsPositionScale_unresolved\<close>): every value of the
  track is \<open>NaN\<close>.
\<close>

theorem unresolved_hips_returns_nonfinite_tracks:
  "getObjectByName asset_without_hips_node ''mixamorigHips'' = None
   \<and> loadMixamoAnimation asset_without_hips_node target_vrm =
       Inr (\<lparr>clip_name = ''vrmAnimation'', duration = 2,
             tracks = [\<lparr>kind = VectorKeyframeTrack, track_name = ''Normalized_Hips.position'',
                        track_times = [0, 1],
                        track_values = [NonFinite, NonFinite, NonFinite, NonFinite, NonFinite, NonFinite]\<rparr>]\<rparr>,
            \<lparr>clip_name = ''mixamo.com'', duration = 2,
             tracks = [\<lparr>kind = VectorKeyframeTrack, track_name = ''mixamorigHips.position'',
                        track_times = [0, 1],
                        track_values = [Num 0, Num 100, Num 0, Num 0, Num 101, Num 2]\<rparr>]\<rparr>)"
  by code_simp

text \<open>
  The claim C9 as stated fails: the loader overwrites the donor's rotation keyframes.
  For a hips joint with rest rotation (3/5, 0, 0, 4/5) and one keyframe (0, 0, 0, 1), the
  donor track holds (-3/5, 0, 0, 4/5) after the call, and a second call on the same donor
  clip returns (-24/25, 0, 0, 7/25) where the first returned (-3/5, 0, 0, 4/5).
\<close>

theorem retarget_twice_counterexample:
  "map (map track_values \<circ> tracks) (animations (asset_after asset_rotated_hips target_vrm))
     \<noteq> map (map track_values \<circ> tracks) (animations asset_rotated_hips)
   \<and> output_clip (asset_after asset_rotated_hips target_vrm) target_vrm
     \<noteq> output_clip asset_rotated_hips target_vrm"
  by code_simp

lemma retargeted_rotation_cong:
  "kind t' = kind t \<Longrightarrow> track_name t' = track_name t
   \<Longrightarrow> retargeted_rotation v t' = retargeted_rotation v t"
  by (simp add: retargeted_rotation_def mapped_node_def)

lemma retarget_track_step:
  "\<exists>t' os. donor_tracks (retarget_track a v s t st) = donor_tracks st @ [t']
         \<and> out_tracks (retarget_track a v s t st) = out_tracks st @ os
         \<and> overwritten_by v t t'
         \<and> map track_values (filter (\<lambda>u. kind u = QuaternionKeyframeTrack) os)
             = map (\<lambda>u. flip_rotation (metaVersion v = Some ''0'') (track_values u))
                 (filter (retargeted_rotation v) [t'])"
proof (cases "mapped_node v t")
  case None
  then have "retarget_track a v s t st = st\<lparr>donor_tracks := donor_tracks st @ [t]\<rparr>"
    by (simp add: retarget_track_def mapped_node_def Let_def)
  moreover have "\<not> retargeted_rotation v t" using None by (simp add: retargeted_rotation_def)
  ultimately show ?thesis by (simp add: overwritten_by_def)
next
  case (Some nodeName)
  define st1 where "st1 =
     (case getObjectByName a (hd (split_dot (track_name t))) of
        None \<Rightarrow> st
      | Some node \<Rightarrow>
          let st = st\<lparr>restRotationInverse := invert (worldQuaternion node)\<rparr>
          in case parentWorldQuaternion node of
               None \<Rightarrow> st
             | Some q \<Rightarrow> st\<lparr>parentRestWorldRotation := q\<rparr>)"
  have o1: "out_tracks st1 = out_tracks st" and d1: "donor_tracks st1 = donor_tracks st"
    by (simp_all add: st1_def Let_def split: option.splits)
  consider (q) "kind t = QuaternionKeyframeTrack" | (v) "kind t = VectorKeyframeTrack"
    | (o) "kind t = OtherKeyframeTrack"
    by (cases "kind t") auto
  then show ?thesis
  proof cases
    case q
    define t' where "t' = t\<lparr>track_values := retarget_values (parentRestWorldRotation st1)
                                 (restRotationInverse st1) (track_values t)\<rparr>"
    have r: "retargeted_rotation v t" "retargeted_rotation v t'"
      using Some q by (simp_all add: retargeted_rotation_def mapped_node_def t'_def)
    have "donor_tracks (retarget_track a v s t st) = donor_tracks st @ [t']"
      and "out_tracks (retarget_track a v s t st) = out_tracks st @
             [\<lparr>kind = QuaternionKeyframeTrack,
               track_name = nodeName @ ''.'' @ (if length (split_dot (track_name t)) > 1
                                                then split_dot (track_name t) ! 1 else ''undefined''),
               track_times = track_times t,
               track_values = flip_rotation (metaVersion v = Some ''0'') (track_values t')\<rparr>]"
      using Some q o1 d1
      by (simp_all add: retarget_track_def mapped_node_def Let_def st1_def [symmetric] t'_def)
    moreover have "overwritten_by v t t'"
      using r by (auto simp: overwritten_by_def t'_def)
    ultimately show ?thesis using r by simp
  next
    case v
    have nr: "\<not> retargeted_rotation v t" using v by (simp add: retargeted_rotation_def)
    have "donor_tracks (retarget_track a v s t st) = donor_tracks st @ [t]"
      and "out_tracks (retarget_track a v s t st) = out_tracks st @
             [\<lparr>kind = VectorKeyframeTrack,
               track_name = nodeName @ ''.'' @ (if length (split_dot (track_name t)) > 1
                                                then split_dot (track_name t) ! 1 else ''undefined''),
               track_times = track_times t,
               track_values = scale_translation (metaVersion v = Some ''0'') s (track_values t)\<rparr>]"
      using Some v o1 d1
      by (simp_all add: retarget_track_def mapped_node_def Let_def st1_def [symmetric])
    then show ?thesis using nr by (simp add: overwritten_by_def)
  next
    case o
    have nr: "\<not> retargeted_rotation v t" using o by (simp add: retargeted_rotation_def)
    have "donor_tracks (retarget_track a v s t st) = donor_tracks st @ [t]"
      and "out_tracks (retarget_track a v s t st) = out_tracks st"
      using Some o o1 d1
      by (simp_all add: retarget_track_def mapped_node_def Let_def st1_def [symmetric])
    then show ?thesis using nr by (simp add: overwritten_by_def)
  qed
qed

lemma retarget_fold:
  "\<exists>ds os. donor_tracks (fold (retarget_track a v s) ts st) = donor_tracks st @ ds
         \<and> out_tracks (fold (retarget_track a v s) ts st) = out_tracks st @ os
         \<and> list_all2 (overwritten_by v) ts ds
         \<and> map track_values (filter (\<lambda>u. kind u = QuaternionKeyframeTrack) os)
             = map (\<lambda>u. flip_rotation (metaVersion v = Some ''0'') (track_values u))
                 (filter (retargeted_rotation v) ds)"
proof (induction ts arbitrary: st)
  case Nil
  then show ?case by simp
next
  case (Cons t ts)
  obtain t' os1 where 1: "donor_tracks (retarget_track a v s t st) = donor_tracks st @ [t']"
    and 2: "out_tracks (retarget_track a v s t st) = out_tracks st @ os1"
    and 3: "overwritten_by v t t'"
    and 4: "map track_values (filter (\<lambda>u. kind u = QuaternionKeyframeTrack) os1)
             = map (\<lambda>u. flip_rotation (metaVersion v = Some ''0'') (track_values u))
                 (filter (retargeted_rotation v) [t'])"
    using retarget_track_step [of a v s t st] by blast
  obtain ds os2 where 5: "donor_tracks (fold (retarget_track a v s) ts (retarget_track a v s t st))
                           = donor_tracks (retarget_track a v s t st) @ ds"
    and 6: "out_tracks (fold (retarget_track a v s) ts (retarget_track a v s t st))
             = out_tracks (retarget_track a v s t st) @ os2"
    and 7: "list_all2 (overwritten_by v) ts ds"
    and 8: "map track_values (filter (\<lambda>u. kind u = QuaternionKeyframeTrack) os2)
             = map (\<lambda>u. flip_rotation (metaVersion v = Some ''0'') (track_values u))
                 (filter (retargeted_rotation v) ds)"
    using Cons.IH [of "retarget_track a v s t st"] by blast
  have d: "donor_tracks (fold (retarget_track a v s) (t # ts) st) = donor_tracks st @ (t' # ds)"
    using 1 5 by simp
  have o: "out_tracks (fold (retarget_track a v s) (t # ts) st) = out_tracks st @ (os1 @ os2)"
    using 2 6 by simp
  have l: "list_all2 (overwritten_by v) (t # ts) (t' # ds)"
    using 3 7 by simp
  have m: "map track_values (filter (\<lambda>u. kind u = QuaternionKeyframeTrack) (os1 @ os2))
             = map (\<lambda>u. flip_rotation (metaVersion v = Some ''0'') (track_values u))
                 (filter (retargeted_rotation v) (t' # ds))"
    using 4 8 by simp
  show ?case using d o l m by blast
qed

text \<open>
  C9 (as amended).  The loader reads nothing but the donor asset and the target, so its
  result is determined by them; but it is no pure function of the donor clip, which it
  changes.  After a successful call every donor track keeps its class, name and times;
  a track that is not retargeted as a rotation keeps its values; and the values of every
  retargeted rotation track have been overwritten by the retargeted rotations, which
  are, up to the sign convention of the output, the values of the rotation tracks of the
  returned clip.
\<close>

theorem loadMixamoAnimation_overwrites_donor:
  assumes "loadMixamoAnimation a v = Inr (out, donor)"
  shows "\<exists>clip. find (\<lambda>c. clip_name c = ''mixamo.com'') (animations a) = Some clip
           \<and> clip_name donor = clip_name clip \<and> duration donor = duration clip
           \<and> duration out = duration clip
           \<and> list_all2 (overwritten_by v) (tracks clip) (tracks donor)
           \<and> map track_values (filter (\<lambda>u. kind u = QuaternionKeyframeTrack) (tracks out))
               = map (\<lambda>u. flip_rotation (metaVersion v = Some ''0'') (track_values u))
                   (filter (retargeted_rotation v) (tracks donor))"
proof -
  obtain clip where c: "find (\<lambda>c. clip_name c = ''mixamo.com'') (animations a) = Some clip"
    using assms by (auto simp: loadMixamoAnimation_def split: option.splits)
  define st where "st = fold (retarget_track a v (hipsPositionScale a v)) (tracks clip)
                     \<lparr>out_tracks = [], restRotationInverse = identityQuaternion,
                      parentRestWorldRotation = identityQuaternion, donor_tracks = []\<rparr>"
  have out: "out = \<lparr>clip_name = ''vrmAnimation'', duration = duration clip, tracks = out_tracks st\<rparr>"
    and donor: "donor = clip\<lparr>tracks := donor_tracks st\<rparr>"
    using assms c by (simp_all add: loadMixamoAnimation_def Let_def st_def)
  obtain ds os where "donor_tracks st = ds" and "out_tracks st = os"
    and "list_all2 (overwritten_by v) (tracks clip) ds"
    and "map track_values (filter (\<lambda>u. kind u = QuaternionKeyframeTrack) os)
             = map (\<lambda>u. flip_rotation (metaVersion v = Some ''0'') (track_values u))
                 (filter (retargeted_rotation v) ds)"
    using retarget_fold [of a v "hipsPositionScale a v" "tracks clip"
        "\<lparr>out_tracks = [], restRotationInverse = identityQuaternion,
          parentRestWorldRotation = identityQuaternion, donor_tracks = []\<rparr>"]
    unfolding st_def by auto
  then show ?thesis using c out donor by simp
qed

lemma flip_rotation_False: "flip_rotation False vs = vs"
proof -
  have "(\<lambda>(v, i). v) = (fst :: jsnum \<times> nat \<Rightarrow> jsnum)"
    by (rule ext) (simp add: case_prod_beta)
  then show ?thesis by (simp add: flip_rotation_def)
qed

theorem loadMixamoAnimation_overwrites_donor_witness:
  "map track_values (tracks (snd (projr (loadMixamoAnimation asset_rotated_hips target_vrm))))
     = [[Num (- (3 / 5)), Num 0, Num 0, Num (4 / 5)]]
   \<and> map track_values (filter (\<lambda>u. kind u = QuaternionKeyframeTrack)
        (tracks (fst (projr (loadMixamoAnimation asset_rotated_hips target_vrm)))))
     = map (\<lambda>u. flip_rotation (metaVersion target_vrm = Some ''0'') (track_values u))
         (filter (retargeted_rotation target_vrm)
            (tracks (snd (projr (loadMixamoAnimation asset_rotated_hips target_vrm)))))"
proof -
  have e: "loadMixamoAnimation asset_rotated_hips target_vrm
           = Inr (fst (projr (loadMixamoAnimation asset_rotated_hips target_vrm)),
                  snd (projr (loadMixamoAnimation asset_rotated_hips target_vrm)))"
    by code_simp
  have d: "map track_values (tracks (snd (projr (loadMixamoAnimation asset_rotated_hips target_vrm))))
     = [[Num (- (3 / 5)), Num 0, Num 0, Num (4 / 5)]]"
    by code_simp
  show ?thesis
    using loadMixamoAnimation_overwrites_donor [OF e] d by blast
qed

end
